theory Spec2Isabelle
  imports Main "HOL-Library.AList"
begin

section \<open>Python values, strings and exceptions\<close>

text \<open>
  The scheduler and the project-board tool work on JSON documents (dictionaries loaded
  with \<open>json.loads\<close> or returned by the GraphQL endpoint) and on Python strings.
  A dictionary is an association list in insertion order; a well-formed one has distinct
  keys. Strings are byte lists and the string functions below follow Python on ASCII text.
  JSON numbers are the integers (float literals do not occur in the modelled documents).
\<close>

datatype py_exception =
    ValueError
  | AttributeError
  | TypeError
  | KeyError
  | ZeroDivisionError
  | RequestError

datatype json =
    JNull
  | JBool bool
  | JInt int
  | JStr string
  | JArr "json list"
  | JObj "(string \<times> json) list"

text \<open>Truth value of a Python object, as \<open>if x:\<close> and \<open>not x\<close> take it.\<close>

fun truthy :: "json \<Rightarrow> bool" where
  "truthy JNull = False"
| "truthy (JBool b) = b"
| "truthy (JInt n) = (n \<noteq> 0)"
| "truthy (JStr s) = (s \<noteq> [])"
| "truthy (JArr xs) = (xs \<noteq> [])"
| "truthy (JObj kvs) = (kvs \<noteq> [])"

text \<open>\<open>d.get(k, default)\<close>: only a dictionary has the method.\<close>

fun py_get :: "json \<Rightarrow> string \<Rightarrow> json \<Rightarrow> py_exception + json" where
  "py_get (JObj kvs) k d = Inr (case map_of kvs k of None \<Rightarrow> d | Some v \<Rightarrow> v)"
| "py_get _ k d = Inl AttributeError"

text \<open>\<open>needle in haystack\<close> for two strings.\<close>

definition is_substring :: "string \<Rightarrow> string \<Rightarrow> bool" where
  "is_substring needle s =
     list_ex (\<lambda>i. take (length needle) (drop i s) = needle) [0 ..< Suc (length s)]"

text \<open>\<open>k in x\<close> for a string \<open>k\<close>: a key of a dictionary, an element of a list,
  a part of a string; other values are not containers.\<close>

fun py_contains :: "json \<Rightarrow> string \<Rightarrow> py_exception + bool" where
  "py_contains (JObj kvs) k = Inr (k \<in> fst ` set kvs)"
| "py_contains (JArr xs) k = Inr (JStr k \<in> set xs)"
| "py_contains (JStr s) k = Inr (is_substring k s)"
| "py_contains _ k = Inl TypeError"

text \<open>\<open>x[k]\<close> for a string \<open>k\<close>.\<close>

fun py_getitem :: "json \<Rightarrow> string \<Rightarrow> py_exception + json" where
  "py_getitem (JObj kvs) k = (case map_of kvs k of None \<Rightarrow> Inl KeyError | Some v \<Rightarrow> Inr v)"
| "py_getitem _ k = Inl TypeError"

subsection \<open>String methods\<close>

text \<open>The ASCII characters \<open>str.isspace\<close> accepts: tab to carriage return, the four
  separators 28 to 31, and the blank.\<close>

definition py_isspace :: "char \<Rightarrow> bool" where
  "py_isspace c = (of_char c \<in> {9, 10, 11, 12, 13, 28, 29, 30, 31, 32 :: nat})"

definition strip :: "string \<Rightarrow> string" where
  "strip s = rev (dropWhile py_isspace (rev (dropWhile py_isspace s)))"

text \<open>\<open>s.split()\<close>: the maximal runs of non-blank characters.\<close>

fun split_ws_aux :: "string \<Rightarrow> string \<Rightarrow> string list" where
  "split_ws_aux cur [] = (if cur = [] then [] else [rev cur])"
| "split_ws_aux cur (c # cs) =
     (if py_isspace c then (if cur = [] then split_ws_aux [] cs else rev cur # split_ws_aux [] cs)
      else split_ws_aux (c # cur) cs)"

definition split_ws :: "string \<Rightarrow> string list" where
  "split_ws s = split_ws_aux [] s"

text \<open>\<open>s.split(sep)\<close> for a one-character separator: always at least one piece.\<close>

fun split_on :: "char \<Rightarrow> string \<Rightarrow> string list" where
  "split_on sep [] = [[]]"
| "split_on sep (c # cs) =
     (if c = sep then [] # split_on sep cs
      else (case split_on sep cs of p # ps \<Rightarrow> (c # p) # ps | [] \<Rightarrow> [[c]]))"

text \<open>\<open>sep.join(parts)\<close> for a one-character or longer separator.\<close>

fun join :: "string \<Rightarrow> string list \<Rightarrow> string" where
  "join sep [] = []"
| "join sep [p] = p"
| "join sep (p # q # ps) = p @ sep @ join sep (q # ps)"

subsection \<open>\<open>int(s)\<close> on decimal text\<close>

definition is_digit :: "char \<Rightarrow> bool" where
  "is_digit c = (48 \<le> (of_char c :: nat) \<and> (of_char c :: nat) \<le> 57)"

definition digit_val :: "char \<Rightarrow> nat" where
  "digit_val c = of_char c - 48"

definition digits_val :: "string \<Rightarrow> nat" where
  "digits_val s = foldl (\<lambda>a c. 10 * a + digit_val c) 0 s"

text \<open>An unsigned literal: groups of digits, single underscores allowed between groups.\<close>

definition nat_literal :: "string \<Rightarrow> nat option" where
  "nat_literal s =
     (let groups = split_on (CHR ''_'') s in
      if list_all (\<lambda>g. g \<noteq> [] \<and> list_all is_digit g) groups
      then Some (digits_val (concat groups)) else None)"

text \<open>\<open>int(s)\<close>: surrounding blanks are dropped, one sign may lead; \<open>None\<close> stands for
  the \<open>ValueError\<close> of a text that is no decimal literal.\<close>

definition py_int :: "string \<Rightarrow> int option" where
  "py_int s =
     (case strip s of
        [] \<Rightarrow> None
      | c # r \<Rightarrow>
          if c = CHR ''-'' then map_option (\<lambda>n. - int n) (nat_literal r)
          else if c = CHR ''+'' then map_option int (nat_literal r)
          else map_option int (nat_literal (c # r)))"

section \<open>Cron expressions (scheduler.py)\<close>

record cron_fields =
  minute_f :: string
  hour_f :: string
  day_of_month_f :: string
  month_f :: string
  day_of_week_f :: string

text \<open>\<open>_parse_cron\<close>: five blank-separated fields or a \<open>ValueError\<close>.\<close>

definition parse_cron :: "string \<Rightarrow> py_exception + cron_fields" where
  "parse_cron cron_expr =
     (case split_ws (strip cron_expr) of
        [a, b, c, d, e] \<Rightarrow>
          Inr \<lparr>minute_f = a, hour_f = b, day_of_month_f = c, month_f = d, day_of_week_f = e\<rparr>
      | _ \<Rightarrow> Inl ValueError)"

text \<open>
  \<open>_cron_field_matches(field, value, max_value)\<close>. The branches are tried in the order
  of the source. A chained comparison \<open>int(start) <= value <= int(end)\<close> converts
  \<open>end\<close> only when the first comparison holds. \<open>max_value\<close> is not used by the source.
\<close>

definition range_check :: "string \<Rightarrow> string \<Rightarrow> int \<Rightarrow> py_exception + bool" where
  "range_check start end' v =
     (case py_int start of
        None \<Rightarrow> Inl ValueError
      | Some a \<Rightarrow>
          if a \<le> v then (case py_int end' of None \<Rightarrow> Inl ValueError | Some b \<Rightarrow> Inr (v \<le> b))
          else Inr False)"

fun int_all :: "string list \<Rightarrow> py_exception + int list" where
  "int_all [] = Inr []"
| "int_all (s # ss) =
     (case py_int s of
        None \<Rightarrow> Inl ValueError
      | Some n \<Rightarrow> (case int_all ss of Inl e \<Rightarrow> Inl e | Inr ns \<Rightarrow> Inr (n # ns)))"

definition cron_field_matches :: "string \<Rightarrow> int \<Rightarrow> int \<Rightarrow> py_exception + bool" where
  "cron_field_matches field v max_value =
     (if field = ''*'' then Inr True
      else if take 2 field = ''*/'' then
        (case py_int (drop 2 field) of
           None \<Rightarrow> Inl ValueError
         | Some step \<Rightarrow> if step = 0 then Inl ZeroDivisionError else Inr (v mod step = 0))
      else if CHR ''-'' \<in> set field \<and> CHR ''/'' \<notin> set field then
        (case split_on (CHR ''-'') field of
           [start, end'] \<Rightarrow> range_check start end' v
         | _ \<Rightarrow> Inl ValueError)
      else if CHR ''-'' \<in> set field \<and> CHR ''/'' \<in> set field then
        (case split_on (CHR ''/'') field of
           [range_part, step] \<Rightarrow>
             (case split_on (CHR ''-'') range_part of
                [start, end'] \<Rightarrow>
                  (case range_check start end' v of
                     Inl e \<Rightarrow> Inl e
                   | Inr False \<Rightarrow> Inr False
                   | Inr True \<Rightarrow>
                       (case py_int start of
                          None \<Rightarrow> Inl ValueError
                        | Some a \<Rightarrow>
                            (case py_int step of
                               None \<Rightarrow> Inl ValueError
                             | Some n \<Rightarrow>
                                 if n = 0 then Inl ZeroDivisionError
                                 else Inr ((v - a) mod n = 0))))
              | _ \<Rightarrow> Inl ValueError)
         | _ \<Rightarrow> Inl ValueError)
      else if CHR '','' \<in> set field then
        (case int_all (split_on (CHR '','') field) of
           Inl e \<Rightarrow> Inl e
         | Inr ns \<Rightarrow> Inr (v \<in> set ns))
      else
        (case py_int field of None \<Rightarrow> Inl ValueError | Some n \<Rightarrow> Inr (n = v)))"

subsection \<open>The field grammar of the specification\<close>







section \<open>Dates and times (the standard library's \<open>datetime\<close>)\<close>

text \<open>
  A naive \<open>datetime\<close> object: the fields the scheduler reads. The day number follows the
  library's proleptic Gregorian ordinal (\<open>_ymd2ord\<close>), \<open>weekday\<close> counts Monday as 0.
\<close>

record datetime =
  year :: int
  month :: int
  day :: int
  hour :: int
  minute :: int
  second :: int
  microsecond :: int

definition is_leap :: "int \<Rightarrow> bool" where
  "is_leap y = (y mod 4 = 0 \<and> (y mod 100 \<noteq> 0 \<or> y mod 400 = 0))"

definition days_before_year :: "int \<Rightarrow> int" where
  "days_before_year y = (y - 1) * 365 + (y - 1) div 4 - (y - 1) div 100 + (y - 1) div 400"

definition days_before_month :: "int \<Rightarrow> int \<Rightarrow> int" where
  "days_before_month y m =
     (if 1 \<le> m \<and> m \<le> 12
      then [0, 31, 59, 90, 120, 151, 181, 212, 243, 273, 304, 334] ! nat (m - 1)
      else 0)
     + (if m > 2 \<and> is_leap y then 1 else 0)"

definition toordinal :: "datetime \<Rightarrow> int" where
  "toordinal d = days_before_year (year d) + days_before_month (year d) (month d) + day d"

definition weekday :: "datetime \<Rightarrow> int" where
  "weekday d = (toordinal d + 6) mod 7"

text \<open>Microseconds since the start of day 0: the difference of two of these is the
  \<open>timedelta\<close> of the two objects.\<close>

definition to_microseconds :: "datetime \<Rightarrow> int" where
  "to_microseconds d =
     (((toordinal d * 24 + hour d) * 60 + minute d) * 60 + second d) * 1000000 + microsecond d"

text \<open>
  \<open>datetime.fromisoformat\<close> belongs to the interpreter, and the texts it accepts differ
  between versions. The scheduler functions take it as a parameter: the text is mapped to
  the fields it denotes and to its UTC offset in seconds when it has one, \<open>None\<close> is the
  \<open>ValueError\<close> of a text the parser rejects.
\<close>

type_synonym iso_parser = "string \<Rightarrow> (datetime \<times> int option) option"

section \<open>Trigger matching (scheduler.py)\<close>

text \<open>Sequencing of statements that may raise: the first exception ends the block.\<close>

definition and_then :: "py_exception + 'a \<Rightarrow> ('a \<Rightarrow> py_exception + 'b) \<Rightarrow> py_exception + 'b" where
  "and_then stmt rest = (case stmt of Inl exc \<Rightarrow> Inl exc | Inr v \<Rightarrow> rest v)"

text \<open>The body of the \<open>try\<close> block of \<open>_cron_matches\<close>: the fields are tested in
  order and the first that does not match ends the test.\<close>

definition cron_matches_body :: "string \<Rightarrow> datetime \<Rightarrow> py_exception + bool" where
  "cron_matches_body cron_expr dt =
     and_then (parse_cron cron_expr) (\<lambda>cron.
     and_then (cron_field_matches (minute_f cron) (minute dt) 59) (\<lambda>m1.
       if \<not> m1 then Inr False else
     and_then (cron_field_matches (hour_f cron) (hour dt) 23) (\<lambda>m2.
       if \<not> m2 then Inr False else
     and_then (cron_field_matches (day_of_month_f cron) (day dt) 31) (\<lambda>m3.
       if \<not> m3 then Inr False else
     and_then (cron_field_matches (month_f cron) (month dt) 12) (\<lambda>m4.
       if \<not> m4 then Inr False else
     (let python_weekday = weekday dt;
          cron_weekday = (python_weekday + 1) mod 7
      in and_then (cron_field_matches (day_of_week_f cron) cron_weekday 6) (\<lambda>m5.
           if \<not> m5 then Inr False else Inr True)))))))"

text \<open>\<open>_cron_matches\<close>: any exception of the body is caught and answered with
  \<open>False\<close>. A value that is not a string has no \<open>strip\<close> method, which raises
  inside the \<open>try\<close> block as well.\<close>

definition cron_matches :: "json \<Rightarrow> datetime \<Rightarrow> bool" where
  "cron_matches cron_expr dt =
     (case cron_expr of
        JStr s \<Rightarrow> (case cron_matches_body s dt of Inl e \<Rightarrow> False | Inr b \<Rightarrow> b)
      | _ \<Rightarrow> False)"

text \<open>\<open>run_at.replace("Z", "+00:00")\<close>.\<close>

definition replace_Z :: "string \<Rightarrow> string" where
  "replace_Z s = concat (map (\<lambda>c. if c = CHR ''Z'' then ''+00:00'' else [c]) s)"

text \<open>
  \<open>_run_at_matches\<close>. With a sign after the date part the offset is dropped
  (\<open>replace(tzinfo=None)\<close>), the clock fields stay as written. Without one the parsed
  object is used as it is, and subtracting an offset-aware object from the naive \<open>now\<close>
  raises \<open>TypeError\<close>. The source divides \<open>total_seconds()\<close> by 60 in floating point
  and compares with \<open>-1\<close> and \<open>60\<close>; the bounds are whole numbers of microseconds, for
  which the rounded quotient and the exact one compare alike, so the test is on the exact
  difference in microseconds.
\<close>

definition run_at_matches_body :: "iso_parser \<Rightarrow> string \<Rightarrow> datetime \<Rightarrow> py_exception + bool" where
  "run_at_matches_body fromisoformat run_at now =
     (let run_at_str = replace_Z run_at in
      case fromisoformat run_at_str of
        None \<Rightarrow> Inl ValueError
      | Some (dt, tz) \<Rightarrow>
          (let tzinfo = (if CHR ''+'' \<notin> set run_at_str \<and> CHR ''-'' \<notin> set (drop 10 run_at_str)
                         then tz else None)
           in case tzinfo of
                Some off \<Rightarrow> Inl TypeError
              | None \<Rightarrow>
                  (let diff = to_microseconds now - to_microseconds dt
                   in Inr (- 60000000 \<le> diff \<and> diff \<le> 3600000000))))"

definition run_at_matches :: "iso_parser \<Rightarrow> json \<Rightarrow> datetime \<Rightarrow> bool" where
  "run_at_matches fromisoformat run_at now =
     (case run_at of
        JStr s \<Rightarrow> (case run_at_matches_body fromisoformat s now of Inl e \<Rightarrow> False | Inr b \<Rightarrow> b)
      | _ \<Rightarrow> False)"

section \<open>The schedule store (scheduler.py)\<close>

text \<open>
  The schedules live in one repository variable. \<open>VarJson\<close> is a value that
  \<open>json.loads\<close> reads as the given document, \<open>VarMissing\<close> the answer 404 (read as the
  text \<open>{}\<close>), \<open>VarEmpty\<close> the empty text, \<open>VarGarbled\<close> a text that is not JSON and
  \<open>VarUnavailable\<close> any failed request. A write is accepted, refused with a message
  (the HTTP status and body), or the request raises. \<open>write_log\<close> lists the documents sent for writing.
\<close>

datatype variable = VarUnavailable | VarMissing | VarEmpty | VarGarbled | VarJson json

datatype write_policy = Accept | Refuse string | Fail

record github =
  variable :: variable
  policy :: write_policy
  write_log :: "json list"

definition default_schedules :: json where
  "default_schedules = JObj [(''jobs'', JObj []), (''timezone'', JStr ''UTC'')]"

definition get_schedules :: "github \<Rightarrow> json" where
  "get_schedules gh =
     (case variable gh of
        VarJson doc \<Rightarrow> doc
      | VarMissing \<Rightarrow> JObj []
      | _ \<Rightarrow> default_schedules)"

text \<open>\<open>_save_schedules\<close>: \<open>Inr None\<close> is the answer with \<open>success\<close> set,
  \<open>Inr (Some msg)\<close> the answer without it and with its message, \<open>Inl\<close> the exception
  of the request. What \<open>json.dumps\<close> writes, \<open>json.loads\<close> reads back unchanged.\<close>

definition save_schedules :: "github \<Rightarrow> json \<Rightarrow> (py_exception + string option) \<times> github" where
  "save_schedules gh schedules =
     (case policy gh of
        Accept \<Rightarrow> (Inr None, gh\<lparr>variable := VarJson schedules, write_log := write_log gh @ [schedules]\<rparr>)
      | Refuse msg \<Rightarrow> (Inr (Some msg), gh\<lparr>write_log := write_log gh @ [schedules]\<rparr>)
      | Fail \<Rightarrow> (Inl RequestError, gh\<lparr>write_log := write_log gh @ [schedules]\<rparr>))"

section \<open>The scheduler tool (scheduler.py)\<close>

text \<open>
  The arguments of the tool, the two environment values it reads, and its answers. An
  answer carries a status and a text; \<open>ErrorResult\<close> is an error answer with the given
  text, \<open>ExceptionResult\<close> the error answer of the outermost handler (its text renders
  the exception), \<open>SuccessResult\<close> a success answer with a text only, \<open>JobsToRun\<close> the
  success answer of \<open>check\<close> with its \<open>jobs_to_run\<close> list and \<open>JobResult\<close> the
  success answer of \<open>get\<close> with its \<open>job\<close>. The texts of success answers are not
  modelled.
\<close>

record params =
  job_id :: "string option"
  cron :: "string option"
  run_at :: "string option"
  once :: bool
  prompt :: "string option"
  system_prompt :: "string option"
  tools :: "string option"
  model :: "string option"
  max_tokens :: "int option"
  context' :: "string option"
  repository :: "string option"

record environ =
  env_repository :: string
  env_token :: string

datatype response =
    ErrorResult string
  | ExceptionResult py_exception
  | SuccessResult
  | JobsToRun "json list"
  | JobResult json


text \<open>Truth value of an optional string or number argument.\<close>

definition given :: "string option \<Rightarrow> bool" where
  "given x = (case x of None \<Rightarrow> False | Some s \<Rightarrow> s \<noteq> [])"

definition given_int :: "int option \<Rightarrow> bool" where
  "given_int x = (case x of None \<Rightarrow> False | Some n \<Rightarrow> n \<noteq> 0)"

text \<open>The checks every action starts with: a repository and a token.\<close>

definition preamble :: "environ \<Rightarrow> params \<Rightarrow> string option" where
  "preamble env p =
     (let repo = (if given (repository p) then the (repository p) else env_repository env) in
      if repo = [] then Some ''Error: Repository not specified and GITHUB_REPOSITORY not set''
      else if env_token env = [] then Some ''Error: GitHub token not available (PAT_TOKEN or GITHUB_TOKEN)''
      else None)"

subsection \<open>Action \<open>check\<close>\<close>

text \<open>\<open>job.get(k, default)\<close> on the entries of a dictionary.\<close>

definition dget :: "(string \<times> json) list \<Rightarrow> string \<Rightarrow> json \<Rightarrow> json" where
  "dget kvs k d = (case map_of kvs k of None \<Rightarrow> d | Some v \<Rightarrow> v)"

text \<open>The record appended to \<open>jobs_to_run\<close> for a due job.\<close>

definition due_record :: "string \<Rightarrow> (string \<times> json) list \<Rightarrow> json" where
  "due_record jid job =
     JObj [(''job_id'', JStr jid),
           (''prompt'', dget job ''prompt'' (JStr [])),
           (''system_prompt'', dget job ''system_prompt'' JNull),
           (''tools'', dget job ''tools'' JNull),
           (''model'', dget job ''model'' JNull),
           (''max_tokens'', dget job ''max_tokens'' JNull),
           (''context'', dget job ''context'' JNull),
           (''once'', dget job ''once'' (JBool False))]"

text \<open>
  The loop over \<open>jobs.items()\<close>: the pair of \<open>jobs_to_run\<close> and \<open>jobs_to_remove\<close>.
  A job that is not a dictionary has no \<open>get\<close> method: the first call raises
  \<open>AttributeError\<close>, which leaves the loop.
\<close>

fun check_loop :: "iso_parser \<Rightarrow> datetime \<Rightarrow> (string \<times> json) list
                     \<Rightarrow> py_exception + (json list \<times> string list)" where
  "check_loop fromisoformat now [] = Inr ([], [])"
| "check_loop fromisoformat now ((jid, JObj job) # rest) =
     (if \<not> truthy (dget job ''enabled'' (JBool True)) then check_loop fromisoformat now rest
      else
        (let cron_expr = dget job ''cron'' JNull;
             cron_hit = (truthy cron_expr \<and> cron_matches cron_expr now);
             run_at_str = dget job ''run_at'' JNull;
             run_at_hit = (truthy run_at_str \<and> run_at_matches fromisoformat run_at_str now);
             remove = (run_at_hit \<and> truthy (dget job ''once'' JNull));
             should_run = (cron_hit \<or> run_at_hit)
         in and_then (check_loop fromisoformat now rest) (\<lambda>(jobs_to_run, jobs_to_remove).
              Inr (if should_run then due_record jid job # jobs_to_run else jobs_to_run,
                   if remove then jid # jobs_to_remove else jobs_to_remove))))"
| "check_loop fromisoformat now ((jid, other) # rest) = Inl AttributeError"

text \<open>\<open>del schedules["jobs"][jid]\<close>.\<close>

definition del_job :: "json \<Rightarrow> string \<Rightarrow> py_exception + json" where
  "del_job schedules jid =
     (case schedules of
        JObj kvs \<Rightarrow>
          (case map_of kvs ''jobs'' of
             None \<Rightarrow> Inl KeyError
           | Some (JObj jobs) \<Rightarrow>
               if jid \<in> fst ` set jobs
               then Inr (JObj (AList.update ''jobs'' (JObj (AList.delete jid jobs)) kvs))
               else Inl KeyError
           | Some other \<Rightarrow> Inl TypeError)
      | _ \<Rightarrow> Inl TypeError)"

fun del_jobs :: "json \<Rightarrow> string list \<Rightarrow> py_exception + json" where
  "del_jobs schedules [] = Inr schedules"
| "del_jobs schedules (jid # jids) = and_then (del_job schedules jid) (\<lambda>s. del_jobs s jids)"

text \<open>
  The text of the answer is built after the removals are saved. For every due job it
  reads \<open>job['job_id']\<close> and \<open>job['prompt'][:100]\<close>; the slice needs a string or a
  list, any other prompt raises (\<open>TypeError\<close>, or \<open>KeyError\<close> for a dictionary on
  interpreters that hash slices; the model says \<open>TypeError\<close>).
\<close>

fun sliceable :: "json \<Rightarrow> bool" where
  "sliceable (JStr s) = True"
| "sliceable (JArr xs) = True"
| "sliceable _ = False"

fun text_lines :: "json list \<Rightarrow> py_exception + unit" where
  "text_lines [] = Inr ()"
| "text_lines (job # jobs_to_run) =
     and_then (py_getitem job ''job_id'') (\<lambda>jid.
     and_then (py_getitem job ''prompt'') (\<lambda>p.
       if sliceable p then text_lines jobs_to_run else Inl TypeError))"

definition check_answer :: "json list \<Rightarrow> response" where
  "check_answer jobs_to_run =
     (case text_lines jobs_to_run of
        Inl e \<Rightarrow> ExceptionResult e
      | Inr u \<Rightarrow> JobsToRun jobs_to_run)"

text \<open>The branch \<open>action == "check"\<close>, from reading the schedules to the answer. The
  answer of the write request is not looked at.\<close>

definition check :: "iso_parser \<Rightarrow> datetime \<Rightarrow> github \<Rightarrow> response \<times> github" where
  "check fromisoformat now gh =
     (let schedules = get_schedules gh in
      case py_get schedules ''jobs'' (JObj []) of
        Inl e \<Rightarrow> (ExceptionResult e, gh)
      | Inr (JObj jobs) \<Rightarrow>
          (case check_loop fromisoformat now jobs of
             Inl e \<Rightarrow> (ExceptionResult e, gh)
           | Inr (jobs_to_run, jobs_to_remove) \<Rightarrow>
               if jobs_to_remove \<noteq> [] then
                 (case del_jobs schedules jobs_to_remove of
                    Inl e \<Rightarrow> (ExceptionResult e, gh)
                  | Inr schedules' \<Rightarrow>
                      (case save_schedules gh schedules' of
                         (Inl e, gh') \<Rightarrow> (ExceptionResult e, gh')
                       | (Inr answer, gh') \<Rightarrow> (check_answer jobs_to_run, gh')))
               else (check_answer jobs_to_run, gh))
      | Inr other \<Rightarrow> (ExceptionResult AttributeError, gh))"

definition scheduler_check :: "environ \<Rightarrow> iso_parser \<Rightarrow> datetime \<Rightarrow> params \<Rightarrow> github
                                 \<Rightarrow> response \<times> github" where
  "scheduler_check env fromisoformat now p gh =
     (case preamble env p of
        Some msg \<Rightarrow> (ErrorResult msg, gh)
      | None \<Rightarrow> check fromisoformat now gh)"

subsection \<open>Action \<open>add\<close>\<close>

text \<open>The job dictionary \<open>add\<close> builds: \<open>prompt\<close> and \<open>enabled\<close> always, every
  other key only when its argument is true as a condition, and \<open>once\<close> only inside
  the \<open>run_at\<close> branch.\<close>

definition new_job :: "params \<Rightarrow> (string \<times> json) list" where
  "new_job p =
     [(''prompt'', JStr (the (prompt p))), (''enabled'', JBool True)]
     @ (if given (cron p) then [(''cron'', JStr (the (cron p)))] else [])
     @ (if given (run_at p)
        then [(''run_at'', JStr (the (run_at p)))] @ (if once p then [(''once'', JBool True)] else [])
        else [])
     @ (if given (system_prompt p) then [(''system_prompt'', JStr (the (system_prompt p)))] else [])
     @ (if given (tools p) then [(''tools'', JStr (the (tools p)))] else [])
     @ (if given (model p) then [(''model'', JStr (the (model p)))] else [])
     @ (if given_int (max_tokens p) then [(''max_tokens'', JInt (the (max_tokens p)))] else [])
     @ (if given (context' p) then [(''context'', JStr (the (context' p)))] else [])"

text \<open>
  \<open>schedules["jobs"][job_id] = {...}\<close>, after \<open>jobs\<close> is created when the document
  lacks it. A document or a \<open>jobs\<close> value that is not a dictionary fails with
  \<open>TypeError\<close>, at the membership test or at the assignment.
\<close>

definition put_job :: "json \<Rightarrow> string \<Rightarrow> (string \<times> json) list \<Rightarrow> py_exception + json" where
  "put_job schedules jid job =
     (case schedules of
        JObj kvs \<Rightarrow>
          (let kvs' = (if ''jobs'' \<in> fst ` set kvs then kvs else kvs @ [(''jobs'', JObj [])]) in
           case map_of kvs' ''jobs'' of
             Some (JObj jobs) \<Rightarrow>
               Inr (JObj (AList.update ''jobs'' (JObj (AList.update jid (JObj job) jobs)) kvs'))
           | _ \<Rightarrow> Inl TypeError)
      | _ \<Rightarrow> Inl TypeError)"

definition add :: "iso_parser \<Rightarrow> params \<Rightarrow> github \<Rightarrow> response \<times> github" where
  "add fromisoformat p gh =
     (if \<not> given (job_id p) then (ErrorResult ''Error: job_id is required'', gh)
      else if \<not> given (cron p) \<and> \<not> given (run_at p)
        then (ErrorResult ''Error: Either cron or run_at is required'', gh)
      else if \<not> given (prompt p) then (ErrorResult ''Error: prompt is required'', gh)
      else if given (cron p) \<and> isl (parse_cron (the (cron p)))
        then (ErrorResult (''Error: Invalid cron expression: '' @ the (cron p) @ '' (expected 5 fields)''), gh)
      else if given (run_at p) \<and> fromisoformat (replace_Z (the (run_at p))) = None
        then (ErrorResult ''Error: Invalid run_at format. Use ISO 8601 (e.g., 2024-01-20T14:00:00Z)'', gh)
      else
        (case put_job (get_schedules gh) (the (job_id p)) (new_job p) of
           Inl e \<Rightarrow> (ExceptionResult e, gh)
         | Inr schedules \<Rightarrow>
             (case save_schedules gh schedules of
                (Inl e, gh') \<Rightarrow> (ExceptionResult e, gh')
              | (Inr (Some msg), gh') \<Rightarrow> (ErrorResult (''Failed to save: '' @ msg), gh')
              | (Inr None, gh') \<Rightarrow> (SuccessResult, gh'))))"


subsection \<open>Action \<open>get\<close>\<close>

definition get :: "params \<Rightarrow> github \<Rightarrow> response \<times> github" where
  "get p gh =
     (if \<not> given (job_id p) then (ErrorResult ''Error: job_id is required'', gh)
      else
        (let jid = the (job_id p);
             r = and_then (py_get (get_schedules gh) ''jobs'' (JObj [])) (\<lambda>jobs.
                 and_then (py_contains jobs jid) (\<lambda>present.
                   if \<not> present then Inr (ErrorResult (''Job `'' @ jid @ ''` not found''))
                   else and_then (py_getitem jobs jid) (\<lambda>job.
                     and_then (py_get job ''cron'' JNull) (\<lambda>c. Inr (JobResult job)))))
         in case r of Inl e \<Rightarrow> (ExceptionResult e, gh) | Inr answer \<Rightarrow> (answer, gh)))"

definition scheduler_get :: "environ \<Rightarrow> params \<Rightarrow> github \<Rightarrow> response \<times> github" where
  "scheduler_get env p gh =
     (case preamble env p of
        Some msg \<Rightarrow> (ErrorResult msg, gh)
      | None \<Rightarrow> get p gh)"

section \<open>Timestamps every interpreter version reads\<close>

text \<open>
  \<open>datetime.fromisoformat\<close> on the texts \<open>YYYY-MM-DD?HH:MM:SS\<close> with an optional offset
  \<open>+HH:MM\<close> or \<open>-HH:MM\<close> (any single character may separate date and time). Every
  version of the parser reads these texts this way; newer versions read further forms,
  which this function rejects. It serves as the parser in the worked examples; the
  theorems hold for any parser.
\<close>

definition number :: "string \<Rightarrow> int option" where
  "number s = (if s \<noteq> [] \<and> list_all is_digit s then Some (int (digits_val s)) else None)"

definition days_in_month :: "int \<Rightarrow> int \<Rightarrow> int" where
  "days_in_month y m =
     (if m = 2 then (if is_leap y then 29 else 28)
      else if m \<in> {4, 6, 9, 11} then 30 else 31)"

definition parse_offset :: "string \<Rightarrow> int option option" where
  "parse_offset s =
     (if s = [] then Some None
      else if length s = 6 \<and> (s ! 0 = CHR ''+'' \<or> s ! 0 = CHR ''-'') \<and> s ! 3 = CHR '':'' then
        (case (number (take 2 (drop 1 s)), number (drop 4 s)) of
           (Some h, Some m) \<Rightarrow>
             if h < 24 \<and> m < 60
             then Some (Some ((if s ! 0 = CHR ''-'' then - 1 else 1) * (h * 3600 + m * 60)))
             else None
         | _ \<Rightarrow> None)
      else None)"

definition fromisoformat_std :: iso_parser where
  "fromisoformat_std s =
     (if length s < 19 \<or> s ! 4 \<noteq> CHR ''-'' \<or> s ! 7 \<noteq> CHR ''-''
         \<or> s ! 13 \<noteq> CHR '':'' \<or> s ! 16 \<noteq> CHR '':'' then None
      else
        (case (number (take 4 s), number (take 2 (drop 5 s)), number (take 2 (drop 8 s)),
               number (take 2 (drop 11 s)), number (take 2 (drop 14 s)),
               number (take 2 (drop 17 s)), parse_offset (drop 19 s)) of
           (Some y, Some mo, Some d, Some h, Some mi, Some se, Some tz) \<Rightarrow>
             if 1 \<le> y \<and> 1 \<le> mo \<and> mo \<le> 12 \<and> 1 \<le> d \<and> d \<le> days_in_month y mo
                \<and> h < 24 \<and> mi < 60 \<and> se < 60
             then Some (\<lparr>year = y, month = mo, day = d, hour = h, minute = mi, second = se,
                          microsecond = 0\<rparr>, tz)
             else None
         | _ \<Rightarrow> None))"

section \<open>Reading the loop of \<open>check\<close>\<close>

text \<open>
  What one pass of the loop decides for a job that is a dictionary: whether it is
  looked at, whether it is due, and whether it is put on the removal list.
\<close>

definition job_enabled :: "(string \<times> json) list \<Rightarrow> bool" where
  "job_enabled job = truthy (dget job ''enabled'' (JBool True))"

definition cron_hit :: "datetime \<Rightarrow> (string \<times> json) list \<Rightarrow> bool" where
  "cron_hit now job =
     (truthy (dget job ''cron'' JNull) \<and> cron_matches (dget job ''cron'' JNull) now)"

definition run_at_hit :: "iso_parser \<Rightarrow> datetime \<Rightarrow> (string \<times> json) list \<Rightarrow> bool" where
  "run_at_hit fromisoformat now job =
     (truthy (dget job ''run_at'' JNull)
      \<and> run_at_matches fromisoformat (dget job ''run_at'' JNull) now)"

definition job_due :: "iso_parser \<Rightarrow> datetime \<Rightarrow> (string \<times> json) list \<Rightarrow> bool" where
  "job_due fromisoformat now job =
     (job_enabled job \<and> (cron_hit now job \<or> run_at_hit fromisoformat now job))"

definition job_retired :: "iso_parser \<Rightarrow> datetime \<Rightarrow> (string \<times> json) list \<Rightarrow> bool" where
  "job_retired fromisoformat now job =
     (job_enabled job \<and> run_at_hit fromisoformat now job \<and> truthy (dget job ''once'' JNull))"

text \<open>A collection whose jobs are all dictionaries, as entries of a JSON object.\<close>

definition as_objects :: "(string \<times> (string \<times> json) list) list \<Rightarrow> (string \<times> json) list" where
  "as_objects jobs = map (\<lambda>(jid, job). (jid, JObj job)) jobs"

definition due_records :: "iso_parser \<Rightarrow> datetime \<Rightarrow> (string \<times> (string \<times> json) list) list
                             \<Rightarrow> json list" where
  "due_records fromisoformat now jobs =
     map (\<lambda>(jid, job). due_record jid job) (filter (\<lambda>(jid, job). job_due fromisoformat now job) jobs)"

definition retired_ids :: "iso_parser \<Rightarrow> datetime \<Rightarrow> (string \<times> (string \<times> json) list) list
                             \<Rightarrow> string list" where
  "retired_ids fromisoformat now jobs =
     map fst (filter (\<lambda>(jid, job). job_retired fromisoformat now job) jobs)"

text \<open>Every job of the collection has a string as its prompt, or none.\<close>

definition string_prompts :: "(string \<times> (string \<times> json) list) list \<Rightarrow> bool" where
  "string_prompts jobs =
     list_all (\<lambda>(jid, job). case dget job ''prompt'' (JStr []) of JStr s \<Rightarrow> True | _ \<Rightarrow> False) jobs"

definition kept_jobs :: "iso_parser \<Rightarrow> datetime \<Rightarrow> (string \<times> (string \<times> json) list) list
                           \<Rightarrow> (string \<times> (string \<times> json) list) list" where
  "kept_jobs fromisoformat now jobs =
     filter (\<lambda>(jid, job). \<not> job_retired fromisoformat now job) jobs"


text \<open>\<open>jid in schedules.get("jobs", {})\<close> on the stored document.\<close>

definition stored :: "github \<Rightarrow> string \<Rightarrow> py_exception + bool" where
  "stored gh jid =
     and_then (py_get (get_schedules gh) ''jobs'' (JObj [])) (\<lambda>jobs. py_contains jobs jid)"

text \<open>\<open>schedules.get("jobs", {})[jid]\<close> on the stored document.\<close>

definition stored_job :: "github \<Rightarrow> string \<Rightarrow> py_exception + json" where
  "stored_job gh jid =
     and_then (py_get (get_schedules gh) ''jobs'' (JObj [])) (\<lambda>jobs. py_getitem jobs jid)"

section \<open>The project board tool (projects.py)\<close>

text \<open>
  Every remote call goes through \<open>_execute_graphql\<close>, which returns the parsed answer
  or raises. The two requests used below are the project query of \<open>_get_project\<close>
  (project id and item limit) and the mutation of \<open>_update_item_field\<close> (project id,
  item id, field id, value, and the name of the value slot). The value of a mutation is
  a JSON value or, for a number field, the float read from a text.
\<close>

datatype field_value = Plain json | Number string

datatype request =
    ProjectQuery string int
  | UpdateFieldValue string string json field_value string

type_synonym executor = "request \<Rightarrow> py_exception + json"

definition get_project :: "executor \<Rightarrow> string \<Rightarrow> int \<Rightarrow> py_exception + json" where
  "get_project execute project_id items_limit =
     and_then (execute (ProjectQuery project_id items_limit)) (\<lambda>result.
     and_then (py_get result ''data'' (JObj [])) (\<lambda>data.
     py_get data ''node'' (JObj [])))"

definition update_item_field :: "executor \<Rightarrow> request \<Rightarrow> py_exception + json" where
  "update_item_field execute req =
     (case req of
        UpdateFieldValue project_id item_id field_id v value_type \<Rightarrow>
          if value_type \<notin> set [''text'', ''number'', ''date'', ''singleSelectOptionId'', ''iterationId'']
          then Inl ValueError
          else
            and_then (execute req) (\<lambda>result.
            and_then (py_get result ''data'' (JObj [])) (\<lambda>data.
            and_then (py_get data ''updateProjectV2ItemFieldValue'' (JObj [])) (\<lambda>u.
            py_get u ''projectV2Item'' (JObj []))))
      | _ \<Rightarrow> Inl ValueError)"

text \<open>\<open>for x in v\<close>: the elements of a list, the keys of a dictionary, the characters
  of a string; other values cannot be iterated.\<close>

fun py_iter :: "json \<Rightarrow> py_exception + json list" where
  "py_iter (JArr xs) = Inr xs"
| "py_iter (JObj kvs) = Inr (map (\<lambda>(k, v). JStr k) kvs)"
| "py_iter (JStr s) = Inr (map (\<lambda>c. JStr [c]) s)"
| "py_iter _ = Inl TypeError"

text \<open>The loop \<open>for field in fields: if field.get("name") == name: ...; break\<close>.\<close>

fun find_named :: "string \<Rightarrow> json list \<Rightarrow> py_exception + json option" where
  "find_named name [] = Inr None"
| "find_named name (x # xs) =
     and_then (py_get x ''name'' JNull) (\<lambda>n.
       if n = JStr name then Inr (Some x) else find_named name xs)"

text \<open>The loop that looks the option up and keeps its \<open>id\<close>; \<open>None\<close> when no option
  has the name.\<close>

fun find_option_id :: "string \<Rightarrow> json list \<Rightarrow> py_exception + json" where
  "find_option_id v [] = Inr JNull"
| "find_option_id v (x # xs) =
     and_then (py_get x ''name'' JNull) (\<lambda>n.
       if n = JStr v then py_get x ''id'' JNull else find_option_id v xs)"

text \<open>\<open>[f.get("name") for f in xs]\<close>, and \<open>", ".join\<close> of it, which needs strings.\<close>

fun get_names :: "json list \<Rightarrow> py_exception + json list" where
  "get_names [] = Inr []"
| "get_names (x # xs) =
     and_then (py_get x ''name'' JNull) (\<lambda>n.
     and_then (get_names xs) (\<lambda>ns. Inr (n # ns)))"

fun as_strings :: "json list \<Rightarrow> py_exception + string list" where
  "as_strings [] = Inr []"
| "as_strings (JStr s # xs) = and_then (as_strings xs) (\<lambda>ss. Inr (s # ss))"
| "as_strings (other # xs) = Inl TypeError"

definition join_names :: "json list \<Rightarrow> py_exception + string" where
  "join_names xs =
     and_then (get_names xs) (\<lambda>ns. and_then (as_strings ns) (\<lambda>ss. Inr (join '', '' ss)))"

subsection \<open>Action \<open>update_item\<close>\<close>

text \<open>
  From the fetched project to the mutation: an exception, the text of an error answer,
  or the mutation request to send. \<open>float_ok\<close> tells whether \<open>float(field_value)\<close>
  reads the text.
\<close>

definition update_item_request :: "(string \<Rightarrow> bool) \<Rightarrow> json \<Rightarrow> string \<Rightarrow> string \<Rightarrow> string \<Rightarrow> string
                                     \<Rightarrow> py_exception + (string + request)" where
  "update_item_request float_ok project project_id item_id field_name field_value =
     and_then (py_get project ''fields'' (JObj [])) (\<lambda>fs.
     and_then (py_get fs ''nodes'' (JArr [])) (\<lambda>nodes.
     and_then (py_iter nodes) (\<lambda>fields.
     and_then (find_named field_name fields) (\<lambda>target_field.
       case target_field of
         None \<Rightarrow>
           and_then (join_names fields) (\<lambda>available.
             Inr (Inl (''Field '' @ [CHR 0x27] @ field_name @ [CHR 0x27]
                       @ '' not found. Available: '' @ available)))
       | Some tf \<Rightarrow>
           and_then (py_get tf ''id'' JNull) (\<lambda>field_id.
           and_then (py_get tf ''dataType'' JNull) (\<lambda>data_type.
             if data_type = JStr ''SINGLE_SELECT'' then
               and_then (py_get tf ''options'' (JArr [])) (\<lambda>opts.
               and_then (py_iter opts) (\<lambda>options.
               and_then (find_option_id field_value options) (\<lambda>option_id.
                 if \<not> truthy option_id then
                   and_then (join_names options) (\<lambda>available_opts.
                     Inr (Inl (''Option '' @ [CHR 0x27] @ field_value @ [CHR 0x27]
                               @ '' not found. Available: '' @ available_opts)))
                 else
                   Inr (Inr (UpdateFieldValue project_id item_id field_id (Plain option_id)
                               ''singleSelectOptionId'')))))
             else if data_type = JStr ''NUMBER'' then
               (if float_ok field_value
                then Inr (Inr (UpdateFieldValue project_id item_id field_id (Number field_value) ''number''))
                else Inl ValueError)
             else if data_type = JStr ''DATE'' then
               Inr (Inr (UpdateFieldValue project_id item_id field_id (Plain (JStr field_value)) ''date''))
             else
               Inr (Inr (UpdateFieldValue project_id item_id field_id (Plain (JStr field_value)) ''text''))))))))"

text \<open>The branch \<open>action == "update_item"\<close>: the answer and the requests sent, in order.\<close>

definition update_item :: "executor \<Rightarrow> (string \<Rightarrow> bool) \<Rightarrow> string \<Rightarrow> string option \<Rightarrow> string option
                             \<Rightarrow> string option \<Rightarrow> response \<times> request list" where
  "update_item execute float_ok project_id item_id field_name field_value =
     (if \<not> given item_id \<or> \<not> given field_name \<or> field_value = None
      then (ErrorResult ''Error: item_id, field_name, and field_value are required'', [])
      else
        (case get_project execute project_id 1 of
           Inl e \<Rightarrow> (ExceptionResult e, [ProjectQuery project_id 1])
         | Inr project \<Rightarrow>
             (case update_item_request float_ok project project_id (the item_id) (the field_name)
                     (the field_value) of
                Inl e \<Rightarrow> (ExceptionResult e, [ProjectQuery project_id 1])
              | Inr (Inl msg) \<Rightarrow> (ErrorResult msg, [ProjectQuery project_id 1])
              | Inr (Inr req) \<Rightarrow>
                  (case update_item_field execute req of
                     Inl e \<Rightarrow> (ExceptionResult e, [ProjectQuery project_id 1, req])
                   | Inr item \<Rightarrow> (SuccessResult, [ProjectQuery project_id 1, req])))))"

text \<open>The tool entry for this action: the project id comes from the argument or from
  \<open>STRANDS_CODER_PROJECT_ID\<close>.\<close>

definition projects_update_item :: "string option \<Rightarrow> executor \<Rightarrow> (string \<Rightarrow> bool) \<Rightarrow> string option
    \<Rightarrow> string option \<Rightarrow> string option \<Rightarrow> string option \<Rightarrow> response \<times> request list" where
  "projects_update_item env_project_id execute float_ok project_id item_id field_name field_value =
     (let pid = (if given project_id then project_id else env_project_id) in
      if \<not> given pid
      then (ErrorResult ''Error: project_id is required. Set STRANDS_CODER_PROJECT_ID env var or provide project_id parameter.'', [])
      else update_item execute float_ok (the pid) item_id field_name field_value)"

subsection \<open>Action \<open>get_progress\<close>\<close>

text \<open>
  \<open>status_counts\<close> is a dictionary keyed by option names. A key must be hashable
  (lists and dictionaries are not), and Python takes \<open>True\<close> and \<open>1\<close>, and \<open>False\<close>
  and \<open>0\<close>, for the same key; the entry keeps the key it was created with.
\<close>

fun hashable :: "json \<Rightarrow> bool" where
  "hashable (JArr xs) = False"
| "hashable (JObj kvs) = False"
| "hashable _ = True"

fun key_norm :: "json \<Rightarrow> json" where
  "key_norm (JBool b) = JInt (if b then 1 else 0)"
| "key_norm k = k"

definition key_eq :: "json \<Rightarrow> json \<Rightarrow> bool" where
  "key_eq a b = (key_norm a = key_norm b)"

text \<open>\<open>counts.get(k, 0)\<close> and \<open>counts[k] = v\<close>.\<close>

fun counts_get :: "(json \<times> int) list \<Rightarrow> json \<Rightarrow> int" where
  "counts_get [] k = 0"
| "counts_get ((k', c) # rest) k = (if key_eq k' k then c else counts_get rest k)"

fun counts_set :: "(json \<times> int) list \<Rightarrow> json \<Rightarrow> int \<Rightarrow> (json \<times> int) list" where
  "counts_set [] k v = [(k, v)]"
| "counts_set ((k', c) # rest) k v =
     (if key_eq k' k then (k', v) # rest else (k', c) # counts_set rest k v)"

text \<open>The counters of the loop over the items.\<close>

record tally =
  issues_open :: int
  issues_closed :: int
  prs_open :: int
  prs_merged :: int
  prs_closed :: int
  drafts :: int
  archived :: int
  status_counts :: "(json \<times> int) list"

text \<open>\<open>for opt in status_field["options"]: status_counts[opt["name"]] = 0\<close>.\<close>

fun init_counts :: "(json \<times> int) list \<Rightarrow> json list \<Rightarrow> py_exception + (json \<times> int) list" where
  "init_counts cs [] = Inr cs"
| "init_counts cs (opt # opts) =
     and_then (py_getitem opt ''name'') (\<lambda>n.
       if hashable n then init_counts (counts_set cs n 0) opts else Inl TypeError)"

text \<open>The inner loop over the field values of one item: a value of the field named
  \<open>Status\<close> with a true name adds one to the count of that name.\<close>

fun count_status :: "(json \<times> int) list \<Rightarrow> json list \<Rightarrow> py_exception + (json \<times> int) list" where
  "count_status cs [] = Inr cs"
| "count_status cs (fv # fvs) =
     and_then (py_get fv ''field'' (JObj [])) (\<lambda>fld.
     and_then (py_get fld ''name'' JNull) (\<lambda>fname.
     and_then (py_get fv ''name'' JNull) (\<lambda>n.
       if fname = JStr ''Status'' \<and> truthy n then
         (if hashable n then count_status (counts_set cs n (counts_get cs n + 1)) fvs
          else Inl TypeError)
       else count_status cs fvs)))"

text \<open>The \<open>if\<close>/\<open>elif\<close> chain on the type of an item that is not archived.\<close>

definition count_kind :: "tally \<Rightarrow> json \<Rightarrow> json \<Rightarrow> py_exception + tally" where
  "count_kind t item_type content =
     (if item_type = JStr ''ISSUE'' then
        and_then (py_get content ''state'' (JStr [])) (\<lambda>state.
          if state = JStr ''OPEN'' then Inr (t\<lparr>issues_open := issues_open t + 1\<rparr>)
          else Inr (t\<lparr>issues_closed := issues_closed t + 1\<rparr>))
      else if item_type = JStr ''PULL_REQUEST'' then
        and_then (py_get content ''state'' (JStr [])) (\<lambda>state.
          if state = JStr ''MERGED'' then Inr (t\<lparr>prs_merged := prs_merged t + 1\<rparr>)
          else if state = JStr ''OPEN'' then Inr (t\<lparr>prs_open := prs_open t + 1\<rparr>)
          else Inr (t\<lparr>prs_closed := prs_closed t + 1\<rparr>))
      else if item_type = JStr ''DRAFT_ISSUE'' then Inr (t\<lparr>drafts := drafts t + 1\<rparr>)
      else Inr t)"

text \<open>One pass of the loop over the items. An archived item is counted as archived and
  nothing else of it is looked at.\<close>

definition count_item :: "tally \<Rightarrow> json \<Rightarrow> py_exception + tally" where
  "count_item t item =
     and_then (py_get item ''isArchived'' JNull) (\<lambda>is_archived.
       if truthy is_archived then Inr (t\<lparr>archived := archived t + 1\<rparr>)
       else
         and_then (py_get item ''content'' (JObj [])) (\<lambda>content.
         and_then (py_get item ''type'' (JStr [])) (\<lambda>item_type.
         and_then (count_kind t item_type content) (\<lambda>t'.
         and_then (py_get item ''fieldValues'' (JObj [])) (\<lambda>fvs.
         and_then (py_get fvs ''nodes'' (JArr [])) (\<lambda>fv_nodes.
         and_then (py_iter fv_nodes) (\<lambda>fv_list.
         and_then (count_status (status_counts t') fv_list) (\<lambda>cs.
           Inr (t'\<lparr>status_counts := cs\<rparr>)))))))))"

fun count_items :: "tally \<Rightarrow> json list \<Rightarrow> py_exception + tally" where
  "count_items t [] = Inr t"
| "count_items t (item # items) = and_then (count_item t item) (\<lambda>t'. count_items t' items)"

text \<open>\<open>total_count - archived\<close>: the total must be a number.\<close>

fun py_minus :: "json \<Rightarrow> int \<Rightarrow> py_exception + int" where
  "py_minus (JInt n) a = Inr (n - a)"
| "py_minus (JBool b) a = Inr ((if b then 1 else 0) - a)"
| "py_minus _ a = Inl TypeError"

text \<open>The list of \<open>{"name": ..., "enabled": ...}\<close> for the workflows.\<close>

fun workflow_list :: "json list \<Rightarrow> py_exception + (json \<times> json) list" where
  "workflow_list [] = Inr []"
| "workflow_list (w # ws) =
     and_then (py_get w ''name'' JNull) (\<lambda>n.
     and_then (py_get w ''enabled'' JNull) (\<lambda>e.
     and_then (workflow_list ws) (\<lambda>rest. Inr ((n, e) # rest))))"

text \<open>
  The dictionary \<open>_get_progress\<close> returns: the four entries of \<open>project\<close>, the three
  of \<open>summary\<close>, \<open>issues\<close> as (open, closed, total), \<open>pull_requests\<close> as
  (open, merged, closed, total), \<open>drafts\<close>, \<open>by_status\<close>, and the name and enabled
  flag of every workflow.
\<close>

record progress =
  project_id :: json
  project_title :: json
  project_url :: json
  project_number :: json
  total_items :: json
  active_items :: int
  archived_items :: int
  issues :: "int \<times> int \<times> int"
  pull_requests :: "int \<times> int \<times> int \<times> int"
  draft_count :: int
  by_status :: "(json \<times> int) list"
  workflows :: "(json \<times> json) list"

definition get_progress :: "executor \<Rightarrow> string \<Rightarrow> py_exception + progress" where
  "get_progress execute pid =
     and_then (get_project execute pid 100) (\<lambda>project.
     and_then (py_get project ''items'' (JObj [])) (\<lambda>items_obj.
     and_then (py_get items_obj ''nodes'' (JArr [])) (\<lambda>items.
     and_then (py_get items_obj ''totalCount'' (JInt 0)) (\<lambda>total_count.
     and_then (py_get project ''fields'' (JObj [])) (\<lambda>fs.
     and_then (py_get fs ''nodes'' (JArr [])) (\<lambda>field_nodes.
     and_then (py_iter field_nodes) (\<lambda>field_list.
     and_then (find_named ''Status'' field_list) (\<lambda>status_field.
     and_then
       (case status_field of
          Some (JObj sf) \<Rightarrow>
            (case map_of sf ''options'' of
               Some opts \<Rightarrow> and_then (py_iter opts) (\<lambda>opt_list. init_counts [] opt_list)
             | None \<Rightarrow> Inr [])
        | _ \<Rightarrow> Inr [])
       (\<lambda>counts0.
     and_then (py_iter items) (\<lambda>item_list.
     and_then (count_items \<lparr>issues_open = 0, issues_closed = 0, prs_open = 0, prs_merged = 0,
                             prs_closed = 0, drafts = 0, archived = 0, status_counts = counts0\<rparr>
                 item_list) (\<lambda>t.
     and_then (py_get project ''id'' JNull) (\<lambda>p_id.
     and_then (py_get project ''title'' JNull) (\<lambda>p_title.
     and_then (py_get project ''url'' JNull) (\<lambda>p_url.
     and_then (py_get project ''number'' JNull) (\<lambda>p_number.
     and_then (py_minus total_count (archived t)) (\<lambda>active.
     and_then (py_get project ''workflows'' (JObj [])) (\<lambda>wf.
     and_then (py_get wf ''nodes'' (JArr [])) (\<lambda>wf_nodes.
     and_then (py_iter wf_nodes) (\<lambda>wf_list.
     and_then (workflow_list wf_list) (\<lambda>wfs.
       Inr \<lparr>project_id = p_id, project_title = p_title, project_url = p_url,
            project_number = p_number, total_items = total_count, active_items = active,
            archived_items = archived t,
            issues = (issues_open t, issues_closed t, issues_open t + issues_closed t),
            pull_requests = (prs_open t, prs_merged t, prs_closed t,
                             prs_open t + prs_merged t + prs_closed t),
            draft_count = drafts t, by_status = status_counts t,
            workflows = wfs\<rparr>))))))))))))))))))))"

section \<open>Reading the counts of \<open>get_progress\<close>\<close>

text \<open>
  The class of a fetched item as the loop sees it: an archived item is only archived;
  otherwise the type and, for issues and pull requests, the state of the content decide.
  An issue that is not open counts as closed, a pull request that is neither merged nor
  open counts as closed.
\<close>

datatype item_class =
  Archived | OpenIssue | ClosedIssue | OpenPR | MergedPR | ClosedPR | Draft | Other

definition content_state :: "(string \<times> json) list \<Rightarrow> json" where
  "content_state item =
     (case dget item ''content'' (JObj []) of JObj c \<Rightarrow> dget c ''state'' (JStr []) | _ \<Rightarrow> JNull)"

fun classify :: "json \<Rightarrow> item_class" where
  "classify (JObj item) =
     (if truthy (dget item ''isArchived'' JNull) then Archived
      else if dget item ''type'' (JStr []) = JStr ''ISSUE'' then
        (if content_state item = JStr ''OPEN'' then OpenIssue else ClosedIssue)
      else if dget item ''type'' (JStr []) = JStr ''PULL_REQUEST'' then
        (if content_state item = JStr ''MERGED'' then MergedPR
         else if content_state item = JStr ''OPEN'' then OpenPR else ClosedPR)
      else if dget item ''type'' (JStr []) = JStr ''DRAFT_ISSUE'' then Draft
      else Other)"
| "classify _ = Other"

definition count_class :: "item_class \<Rightarrow> json list \<Rightarrow> int" where
  "count_class c items = int (length (filter (\<lambda>i. classify i = c) items))"

text \<open>A field value that the loop counts for the key \<open>k\<close>: a value of the field named
  \<open>Status\<close> whose name is true and is the key \<open>k\<close>.\<close>

fun status_value :: "json \<Rightarrow> json \<Rightarrow> bool" where
  "status_value k (JObj fv) =
     ((case dget fv ''field'' (JObj []) of
         JObj f \<Rightarrow> dget f ''name'' JNull = JStr ''Status''
       | _ \<Rightarrow> False)
      \<and> truthy (dget fv ''name'' JNull) \<and> key_eq (dget fv ''name'' JNull) k)"
| "status_value k _ = False"

definition field_values :: "json \<Rightarrow> json list" where
  "field_values item =
     (case and_then (py_get item ''fieldValues'' (JObj [])) (\<lambda>fvs.
           and_then (py_get fvs ''nodes'' (JArr [])) py_iter) of
        Inr fv_list \<Rightarrow> fv_list
      | Inl e \<Rightarrow> [])"

definition item_hits :: "json \<Rightarrow> json \<Rightarrow> int" where
  "item_hits k item =
     (if classify item = Archived then 0
      else int (length (filter (status_value k) (field_values item))))"

definition status_hits :: "json \<Rightarrow> json list \<Rightarrow> int" where
  "status_hits k items = sum_list (map (item_hits k) items)"

definition has_key :: "(json \<times> int) list \<Rightarrow> json \<Rightarrow> bool" where
  "has_key cs k = list_ex (\<lambda>entry. key_eq (fst entry) k) cs"

section \<open>Decimal numerals and the field matcher\<close>
























section \<open>The loop and the removal step of \<open>check\<close>\<close>

lemma check_loop_as_objects:
  "check_loop f now (as_objects jobs) = Inr (due_records f now jobs, retired_ids f now jobs)"
proof (induction jobs)
  case Nil
  then show ?case by (simp add: as_objects_def due_records_def retired_ids_def)
next
  case (Cons a jobs)
  obtain jid job where a: "a = (jid, job)" by (cases a)
  from Cons have ih: "check_loop f now (as_objects jobs) = Inr (due_records f now jobs, retired_ids f now jobs)" .
  have step: "as_objects (a # jobs) = (jid, JObj job) # as_objects jobs"
    by (simp add: as_objects_def a)
  show ?case
    unfolding step
    by (simp add: ih and_then_def Let_def due_records_def retired_ids_def a
        job_due_def job_retired_def job_enabled_def cron_hit_def run_at_hit_def)
qed

lemma update_same: "map_of al k = Some v \<Longrightarrow> AList.update k v al = al"
  by (induction al) (auto split: if_splits)

lemma delete_as_objects:
  "AList.delete jid (as_objects jobs) = as_objects (filter (\<lambda>(k, job). k \<noteq> jid) jobs)"
  by (induction jobs) (auto simp: as_objects_def)

lemma keys_as_objects: "fst ` set (as_objects jobs) = fst ` set jobs"
  by (force simp: as_objects_def)

lemma del_jobs_as_objects:
  assumes "map_of kvs ''jobs'' = Some (JObj (as_objects jobs))"
    and "set rem \<subseteq> fst ` set jobs" and "distinct rem"
  shows "del_jobs (JObj kvs) rem =
           Inr (JObj (AList.update ''jobs''
                  (JObj (as_objects (filter (\<lambda>(k, job). k \<notin> set rem) jobs))) kvs))"
  using assms
proof (induction rem arbitrary: kvs jobs)
  case Nil
  then show ?case by (simp add: update_same)
next
  case (Cons jid rem)
  let ?jobs' = "filter (\<lambda>(k, job). k \<noteq> jid) jobs"
  let ?kvs' = "AList.update ''jobs'' (JObj (as_objects ?jobs')) kvs"
  from Cons.prems have "jid \<in> fst ` set jobs" by simp
  with Cons.prems(1) have step: "del_job (JObj kvs) jid = Inr (JObj ?kvs')"
    by (simp add: del_job_def keys_as_objects delete_as_objects)
  have 1: "map_of ?kvs' ''jobs'' = Some (JObj (as_objects ?jobs'))"
    by (simp add: update_conv')
  from Cons.prems have 2: "set rem \<subseteq> fst ` set ?jobs'" by force
  from Cons.prems have 3: "distinct rem" by simp
  have 4: "filter (\<lambda>(k, job). k \<notin> set rem) ?jobs' = filter (\<lambda>(k, job). k \<notin> set (jid # rem)) jobs"
    by (induction jobs) auto
  from Cons.IH [OF 1 2 3]
  have "del_jobs (JObj ?kvs') rem =
          Inr (JObj (AList.update ''jobs''
                 (JObj (as_objects (filter (\<lambda>(k, job). k \<notin> set (jid # rem)) jobs))) kvs))"
    by (simp only: 4 update_last)
  then show ?case
    by (simp only: del_jobs.simps step and_then_def sum.case)
qed

lemma retired_ids_keys: "set (retired_ids f now jobs) \<subseteq> fst ` set jobs"
  by (auto simp: retired_ids_def)

lemma retired_ids_distinct: "distinct (map fst jobs) \<Longrightarrow> distinct (retired_ids f now jobs)"
  by (simp add: retired_ids_def distinct_map_filter)

lemma kept_jobs_filter:
  assumes "distinct (map fst jobs)"
  shows "filter (\<lambda>(k, job). k \<notin> set (retired_ids f now jobs)) jobs = kept_jobs f now jobs"
  unfolding kept_jobs_def
proof (rule filter_cong [OF refl])
  fix x assume x: "x \<in> set jobs"
  obtain k job where kj: "x = (k, job)" by (cases x)
  have "k \<in> set (retired_ids f now jobs) \<longleftrightarrow> job_retired f now job"
  proof
    assume "k \<in> set (retired_ids f now jobs)"
    then obtain job' where "(k, job') \<in> set jobs" "job_retired f now job'"
      by (auto simp: retired_ids_def)
    moreover from this x kj assms have "job' = job"
      by (meson eq_key_imp_eq_value)
    ultimately show "job_retired f now job" by simp
  next
    assume "job_retired f now job"
    with x kj show "k \<in> set (retired_ids f now jobs)"
      by (force simp: retired_ids_def)
  qed
  then show "(case x of (k, job) \<Rightarrow> k \<notin> set (retired_ids f now jobs))
           = (case x of (jid, job) \<Rightarrow> \<not> job_retired f now job)"
    by (simp add: kj)
qed

lemma check_as_objects:
  assumes "variable gh = VarJson (JObj kvs)"
    and "map_of kvs ''jobs'' = Some (JObj (as_objects jobs))"
    and "distinct (map fst jobs)"
  shows "check f now gh =
           (if retired_ids f now jobs = [] then (check_answer (due_records f now jobs), gh)
            else
              ((case policy gh of
                  Fail \<Rightarrow> ExceptionResult RequestError
                | _ \<Rightarrow> check_answer (due_records f now jobs)),
               snd (save_schedules gh
                      (JObj (AList.update ''jobs'' (JObj (as_objects (kept_jobs f now jobs))) kvs)))))"
proof -
  have sched: "get_schedules gh = JObj kvs"
    using assms(1) by (simp add: get_schedules_def)
  have del: "del_jobs (JObj kvs) (retired_ids f now jobs) =
               Inr (JObj (AList.update ''jobs'' (JObj (as_objects (kept_jobs f now jobs))) kvs))"
    using del_jobs_as_objects [OF assms(2) retired_ids_keys retired_ids_distinct [OF assms(3)]]
    by (simp only: kept_jobs_filter [OF assms(3)])
  show ?thesis
    by (cases "policy gh")
      (simp_all add: check_def sched assms(2) check_loop_as_objects del save_schedules_def)
qed

lemma text_lines_due_records:
  "string_prompts jobs \<Longrightarrow> text_lines (due_records f now jobs) = Inr ()"
proof (induction jobs)
  case Nil
  then show ?case by (simp add: due_records_def)
next
  case (Cons a jobs)
  obtain jid job where a: "a = (jid, job)" by (cases a)
  from Cons.prems a obtain s where p: "dget job ''prompt'' (JStr []) = JStr s"
    by (auto simp: string_prompts_def split: json.splits)
  from Cons have ih: "text_lines (due_records f now jobs) = Inr ()"
    by (simp add: string_prompts_def)
  show ?case
    using ih p by (simp add: due_records_def a due_record_def and_then_def)
qed

lemma check_answer_due_records:
  "string_prompts jobs \<Longrightarrow> check_answer (due_records f now jobs) = JobsToRun (due_records f now jobs)"
  by (simp add: check_answer_def text_lines_due_records)

lemma check_JobsToRun:
  assumes "fst (check f now gh) = JobsToRun due"
  shows "\<exists>jobs rem. py_get (get_schedules gh) ''jobs'' (JObj []) = Inr (JObj jobs)
           \<and> check_loop f now jobs = Inr (due, rem)"
  using assms
  by (auto simp: check_def Let_def check_answer_def
      split: sum.splits json.splits prod.splits if_splits)

section \<open>The due window of \<open>run_at\<close>\<close>





section \<open>Triggers that raise\<close>

lemma raising_triggers_not_due:
  assumes "\<forall>s. dget bad ''cron'' JNull = JStr s \<longrightarrow> isl (cron_matches_body s now)"
    and "\<forall>s. dget bad ''run_at'' JNull = JStr s \<longrightarrow> isl (run_at_matches_body f s now)"
  shows "\<not> job_due f now bad" and "\<not> job_retired f now bad"
proof -
  have "\<not> cron_matches (dget bad ''cron'' JNull) now"
    using assms(1) by (cases "dget bad ''cron'' JNull") (auto simp: cron_matches_def split: sum.splits)
  moreover have "\<not> run_at_matches f (dget bad ''run_at'' JNull) now"
    using assms(2) by (cases "dget bad ''run_at'' JNull") (auto simp: run_at_matches_def split: sum.splits)
  ultimately show "\<not> job_due f now bad" and "\<not> job_retired f now bad"
    by (simp_all add: job_due_def job_retired_def cron_hit_def run_at_hit_def)
qed

lemma parse_failure_raises: "isl (parse_cron s) \<Longrightarrow> isl (cron_matches_body s now)"
  by (cases "parse_cron s") (simp_all add: cron_matches_body_def and_then_def)

lemma rejected_timestamp_raises:
  "f (replace_Z s) = None \<Longrightarrow> isl (run_at_matches_body f s now)"
  by (simp add: run_at_matches_body_def)

lemma raising_is_no_match:
  "isl (cron_matches_body s now) \<Longrightarrow> \<not> cron_matches (JStr s) now"
  "isl (run_at_matches_body f s now) \<Longrightarrow> \<not> run_at_matches f (JStr s) now"
  by (auto simp: cron_matches_def run_at_matches_def split: sum.splits)

text \<open>
  Claim C7. For every collection of jobs and every \<open>now\<close>, trigger matching never makes
  \<open>check\<close> raise. A cron text without five fields and a timestamp the parser rejects
  make the matching code raise, and a trigger whose matching raises does not match. A
  job whose triggers raise counts as not due and is not retired, and every other job of
  the collection is evaluated as if that job were absent. With string prompts on the
  other jobs the answer of \<open>check\<close> is the success answer with their due jobs; the
  only exception left is the one of a failing write request after a retirement.
\<close>

theorem check_fail_closed:
  assumes "variable gh = VarJson (JObj kvs)"
    and "map_of kvs ''jobs'' = Some (JObj (as_objects (xs @ (jid, bad) # ys)))"
    and "distinct (map fst (xs @ (jid, bad) # ys))"
    and "\<forall>s. dget bad ''cron'' JNull = JStr s \<longrightarrow> isl (cron_matches_body s now)"
    and "\<forall>s. dget bad ''run_at'' JNull = JStr s \<longrightarrow> isl (run_at_matches_body f s now)"
    and "string_prompts (xs @ ys)"
  shows "check_loop f now (as_objects (xs @ (jid, bad) # ys))
           = Inr (due_records f now (xs @ ys), retired_ids f now (xs @ ys))
         \<and> check_loop f now (as_objects (xs @ ys))
           = Inr (due_records f now (xs @ ys), retired_ids f now (xs @ ys))
         \<and> fst (check f now gh)
           = (if retired_ids f now (xs @ ys) \<noteq> [] \<and> policy gh = Fail
              then ExceptionResult RequestError
              else JobsToRun (due_records f now (xs @ ys)))
         \<and> (\<forall>s. isl (parse_cron s) \<longrightarrow> isl (cron_matches_body s now))
         \<and> (\<forall>s. f (replace_Z s) = None \<longrightarrow> isl (run_at_matches_body f s now))
         \<and> (\<forall>s. isl (cron_matches_body s now) \<longrightarrow> \<not> cron_matches (JStr s) now)
         \<and> (\<forall>s. isl (run_at_matches_body f s now) \<longrightarrow> \<not> run_at_matches f (JStr s) now)"
proof -
  note nd = raising_triggers_not_due [OF assms(4) assms(5)]
  have due: "due_records f now (xs @ (jid, bad) # ys) = due_records f now (xs @ ys)"
    using nd(1) by (simp add: due_records_def)
  have ret: "retired_ids f now (xs @ (jid, bad) # ys) = retired_ids f now (xs @ ys)"
    using nd(2) by (simp add: retired_ids_def)
  have "fst (check f now gh)
           = (if retired_ids f now (xs @ ys) \<noteq> [] \<and> policy gh = Fail
              then ExceptionResult RequestError
              else JobsToRun (due_records f now (xs @ ys)))"
    unfolding check_as_objects [OF assms(1) assms(2) assms(3)] due ret
    by (cases "policy gh") (simp_all add: check_answer_due_records [OF assms(6)])
  then show ?thesis
    using parse_failure_raises rejected_timestamp_raises raising_is_no_match
    by (simp add: check_loop_as_objects due ret)
qed

theorem check_fail_closed_witness:
  "fst (check fromisoformat_std
     \<lparr>year = 2024, month = 1, day = 17, hour = 9, minute = 0, second = 0, microsecond = 0\<rparr>
     \<lparr>variable = VarJson (JObj [(''jobs'', JObj
          [(''legacy'', JObj [(''cron'', JStr ''0 9 * *''), (''run_at'', JStr ''tomorrow''),
                              (''enabled'', JBool True), (''prompt'', JStr ''old'')]),
           (''review'', JObj [(''cron'', JStr ''0 9 * * 1-5''), (''enabled'', JBool True),
                              (''prompt'', JStr ''Review open PRs'')])]),
        (''timezone'', JStr ''UTC'')]),
      policy = Accept, write_log = []\<rparr>)
   = JobsToRun [JObj [(''job_id'', JStr ''review''), (''prompt'', JStr ''Review open PRs''),
                      (''system_prompt'', JNull), (''tools'', JNull), (''model'', JNull),
                      (''max_tokens'', JNull), (''context'', JNull), (''once'', JBool False)]]"
proof -
  let ?now = "\<lparr>year = 2024, month = 1, day = 17, hour = 9, minute = 0, second = 0, microsecond = 0\<rparr>"
  let ?bad = "[(''cron'', JStr ''0 9 * *''), (''run_at'', JStr ''tomorrow''),
               (''enabled'', JBool True), (''prompt'', JStr ''old'')]"
  let ?ys = "[(''review'', [(''cron'', JStr ''0 9 * * 1-5''), (''enabled'', JBool True),
                            (''prompt'', JStr ''Review open PRs'')])]"
  let ?kvs = "[(''jobs'', JObj (as_objects ([] @ (''legacy'', ?bad) # ?ys))), (''timezone'', JStr ''UTC'')]"
  let ?gh = "\<lparr>variable = VarJson (JObj ?kvs), policy = Accept, write_log = []\<rparr>"
  have 1: "variable ?gh = VarJson (JObj ?kvs)" by simp
  have 2: "map_of ?kvs ''jobs'' = Some (JObj (as_objects ([] @ (''legacy'', ?bad) # ?ys)))" by simp
  have 3: "distinct (map fst ([] @ (''legacy'', ?bad) # ?ys))" by simp
  have c: "cron_matches_body ''0 9 * *'' ?now = Inl ValueError" by code_simp
  have r: "run_at_matches_body fromisoformat_std ''tomorrow'' ?now = Inl ValueError" by code_simp
  have 4: "\<forall>s. dget ?bad ''cron'' JNull = JStr s \<longrightarrow> isl (cron_matches_body s ?now)"
    using c by (simp add: dget_def)
  have 5: "\<forall>s. dget ?bad ''run_at'' JNull = JStr s \<longrightarrow> isl (run_at_matches_body fromisoformat_std s ?now)"
    using r by (simp add: dget_def)
  have 6: "string_prompts ([] @ ?ys)" by (simp add: string_prompts_def dget_def)
  have d: "due_records fromisoformat_std ?now ([] @ ?ys)
           = [JObj [(''job_id'', JStr ''review''), (''prompt'', JStr ''Review open PRs''),
                      (''system_prompt'', JNull), (''tools'', JNull), (''model'', JNull),
                      (''max_tokens'', JNull), (''context'', JNull), (''once'', JBool False)]]"
    by code_simp
  have e: "retired_ids fromisoformat_std ?now ([] @ ?ys) = []" by code_simp
  have "fst (check fromisoformat_std ?now ?gh)
          = (if retired_ids fromisoformat_std ?now ([] @ ?ys) \<noteq> [] \<and> policy ?gh = Fail
             then ExceptionResult RequestError
             else JobsToRun (due_records fromisoformat_std ?now ([] @ ?ys)))"
    using check_fail_closed [where f = fromisoformat_std and now = ?now and gh = ?gh
        and kvs = ?kvs and xs = "[]" and jid = "''legacy''" and bad = ?bad and ys = ?ys,
        OF 1 2 3 4 5 6]
    by blast
  then have "fst (check fromisoformat_std ?now ?gh)
          = JobsToRun [JObj [(''job_id'', JStr ''review''), (''prompt'', JStr ''Review open PRs''),
                      (''system_prompt'', JNull), (''tools'', JNull), (''model'', JNull),
                      (''max_tokens'', JNull), (''context'', JNull), (''once'', JBool False)]]"
    unfolding d e by simp
  then show ?thesis by (simp add: as_objects_def)
qed

section \<open>The records of the due list\<close>

lemma check_loop_due_from:
  "check_loop f now jobs = Inr (due, rem) \<Longrightarrow> r \<in> set due \<Longrightarrow>
     \<exists>jid job. (jid, JObj job) \<in> set jobs \<and> job_due f now job \<and> r = due_record jid job"
proof (induction f now jobs arbitrary: due rem rule: check_loop.induct)
  case (1 f now)
  then show ?case by simp
next
  case (2 f now jid job rest)
  show ?case
  proof (cases "truthy (dget job ''enabled'' (JBool True))")
    case False
    with 2 show ?thesis by auto
  next
    case True
    from True 2 obtain due' rem' where rest: "check_loop f now rest = Inr (due', rem')"
      by (auto simp: and_then_def Let_def split: sum.splits)
    from True "2.prems" rest have "r \<in> set due' \<or> (r = due_record jid job \<and> job_due f now job)"
      by (auto simp: and_then_def Let_def job_due_def job_enabled_def cron_hit_def run_at_hit_def
          split: if_splits)
    then show ?thesis
    proof
      assume "r \<in> set due'"
      from "2.IH"(2) [OF _ refl refl refl refl refl refl rest this] True
      show ?thesis by auto
    next
      assume "r = due_record jid job \<and> job_due f now job"
      then show ?thesis by auto
    qed
  qed
qed simp_all

text \<open>
  Claim C1, as the code has it. Every record of the due list returned by \<open>check\<close> comes
  from a job of the stored collection and has exactly the eight keys \<open>job_id\<close>, \<open>prompt\<close>,
  \<open>system_prompt\<close>, \<open>tools\<close>, \<open>model\<close>, \<open>max_tokens\<close>, \<open>context\<close>, \<open>once\<close>, in this
  order and all of them always present: the identifier is under \<open>job_id\<close>, \<open>prompt\<close>
  defaults to the empty string and \<open>once\<close> to false, and each of the five optional
  keys holds the stored value, or null when the stored job does not set it.
\<close>

theorem due_record_fields:
  assumes "fst (check f now gh) = JobsToRun due" and "r \<in> set due"
  shows "\<exists>jobs jid job kvs. py_get (get_schedules gh) ''jobs'' (JObj []) = Inr (JObj jobs)
           \<and> (jid, JObj job) \<in> set jobs \<and> r = JObj kvs
           \<and> map fst kvs = [''job_id'', ''prompt'', ''system_prompt'', ''tools'', ''model'',
                             ''max_tokens'', ''context'', ''once'']
           \<and> map_of kvs ''job_id'' = Some (JStr jid)
           \<and> map_of kvs ''prompt'' = Some (case map_of job ''prompt'' of None \<Rightarrow> JStr [] | Some v \<Rightarrow> v)
           \<and> map_of kvs ''once'' = Some (case map_of job ''once'' of None \<Rightarrow> JBool False | Some v \<Rightarrow> v)
           \<and> (\<forall>k \<in> {''system_prompt'', ''tools'', ''model'', ''max_tokens'', ''context''}.
                 map_of kvs k = Some (case map_of job k of None \<Rightarrow> JNull | Some v \<Rightarrow> v))"
proof -
  from check_JobsToRun [OF assms(1)] obtain jobs rem
    where g: "py_get (get_schedules gh) ''jobs'' (JObj []) = Inr (JObj jobs)"
      and l: "check_loop f now jobs = Inr (due, rem)" by blast
  from check_loop_due_from [OF l assms(2)] obtain jid job
    where j: "(jid, JObj job) \<in> set jobs" "r = due_record jid job" by blast
  show ?thesis
    apply (rule exI [of _ jobs], rule exI [of _ jid], rule exI [of _ job])
    apply (rule exI [of _ "[(''job_id'', JStr jid),
           (''prompt'', dget job ''prompt'' (JStr [])),
           (''system_prompt'', dget job ''system_prompt'' JNull),
           (''tools'', dget job ''tools'' JNull),
           (''model'', dget job ''model'' JNull),
           (''max_tokens'', dget job ''max_tokens'' JNull),
           (''context'', dget job ''context'' JNull),
           (''once'', dget job ''once'' (JBool False))]"])
    using j g by (simp add: due_record_def dget_def)
qed

theorem due_record_fields_witness:
  "\<exists>kvs. JObj [(''job_id'', JStr ''review''), (''prompt'', JStr ''Review open PRs''),
                (''system_prompt'', JNull), (''tools'', JStr ''strands_tools:shell''),
                (''model'', JNull), (''max_tokens'', JNull), (''context'', JNull),
                (''once'', JBool False)] = JObj kvs
         \<and> map fst kvs = [''job_id'', ''prompt'', ''system_prompt'', ''tools'', ''model'',
                           ''max_tokens'', ''context'', ''once'']
         \<and> map_of kvs ''system_prompt'' = Some JNull
         \<and> map_of kvs ''tools'' = Some (JStr ''strands_tools:shell'')"
proof -
  let ?now = "\<lparr>year = 2024, month = 1, day = 17, hour = 9, minute = 0, second = 0, microsecond = 0\<rparr>"
  let ?job = "[(''cron'', JStr ''0 9 * * 1-5''), (''enabled'', JBool True),
               (''tools'', JStr ''strands_tools:shell''), (''prompt'', JStr ''Review open PRs'')]"
  let ?r = "JObj [(''job_id'', JStr ''review''), (''prompt'', JStr ''Review open PRs''),
                (''system_prompt'', JNull), (''tools'', JStr ''strands_tools:shell''),
                (''model'', JNull), (''max_tokens'', JNull), (''context'', JNull),
                (''once'', JBool False)]"
  let ?gh = "\<lparr>variable = VarJson (JObj [(''jobs'', JObj [(''review'', JObj ?job)])]),
             policy = Accept, write_log = []\<rparr>"
  have 1: "fst (check fromisoformat_std ?now ?gh) = JobsToRun [?r]"
    by code_simp
  have 2: "?r \<in> set [?r]" by simp
  show ?thesis
    using due_record_fields [OF 1 2] by auto
qed

theorem due_record_fields_counterexample:
  "fst (check fromisoformat_std
     \<lparr>year = 2024, month = 1, day = 17, hour = 9, minute = 0, second = 0, microsecond = 0\<rparr>
     \<lparr>variable = VarJson (JObj [(''jobs'', JObj
          [(''review'', JObj [(''cron'', JStr ''0 9 * * 1-5''), (''enabled'', JBool True),
                              (''prompt'', JStr ''Review open PRs'')])]),
        (''timezone'', JStr ''UTC'')]),
      policy = Accept, write_log = []\<rparr>)
   = JobsToRun [JObj [(''job_id'', JStr ''review''), (''prompt'', JStr ''Review open PRs''),
                      (''system_prompt'', JNull), (''tools'', JNull), (''model'', JNull),
                      (''max_tokens'', JNull), (''context'', JNull), (''once'', JBool False)]]
   \<and> map_of [(''job_id'', JStr ''review''), (''prompt'', JStr ''Review open PRs''),
              (''system_prompt'', JNull), (''tools'', JNull), (''model'', JNull),
              (''max_tokens'', JNull), (''context'', JNull), (''once'', JBool False)] ''id'' = None
   \<and> map_of [(''cron'', JStr ''0 9 * * 1-5''), (''enabled'', JBool True),
              (''prompt'', JStr ''Review open PRs'')] ''system_prompt'' = None"
  by code_simp

section \<open>Retirement of once jobs\<close>








section \<open>Adding and reading back a job\<close>

lemma put_job_stored:
  assumes "put_job schedules jid job = Inr schedules'"
  shows "and_then (py_get schedules' ''jobs'' (JObj [])) (\<lambda>jobs. py_getitem jobs jid) = Inr (JObj job)"
    and "and_then (py_get schedules' ''jobs'' (JObj [])) (\<lambda>jobs. py_contains jobs jid) = Inr True"
  using assms
  by (auto simp: put_job_def Let_def and_then_def update_conv' dom_update
      split: json.splits option.splits if_splits)

lemma add_success:
  assumes "add f p gh = (SuccessResult, gh')"
  shows "\<exists>schedules. put_job (get_schedules gh) (the (job_id p)) (new_job p) = Inr schedules
           \<and> policy gh = Accept
           \<and> gh' = gh\<lparr>variable := VarJson schedules, write_log := write_log gh @ [schedules]\<rparr>"
  using assms
  by (auto simp: add_def save_schedules_def
      split: if_splits sum.splits write_policy.splits option.splits prod.splits)

lemma add_then_stored:
  assumes "add f p gh = (SuccessResult, gh')"
  shows "stored_job gh' (the (job_id p)) = Inr (JObj (new_job p))"
    and "stored gh' (the (job_id p)) = Inr True"
proof -
  from add_success [OF assms] obtain schedules
    where s: "put_job (get_schedules gh) (the (job_id p)) (new_job p) = Inr schedules"
      and g: "get_schedules gh' = schedules"
    by (auto simp: get_schedules_def)
  show "stored_job gh' (the (job_id p)) = Inr (JObj (new_job p))"
    unfolding stored_job_def g by (rule put_job_stored(1) [OF s])
  show "stored gh' (the (job_id p)) = Inr True"
    unfolding stored_def g by (rule put_job_stored(2) [OF s])
qed

lemma put_job_get:
  assumes "put_job schedules jid job = Inr schedules'" and "given (job_id p)" and "the (job_id p) = jid"
    and "get_schedules gh' = schedules'"
  shows "get p gh' = (JobResult (JObj job), gh')"
  using assms
  by (auto simp: get_def put_job_def Let_def and_then_def update_conv' dom_update
      split: json.splits option.splits if_splits)

lemma put_job_total:
  assumes "map_of kvs ''jobs'' = None \<or> (\<exists>jobs. map_of kvs ''jobs'' = Some (JObj jobs))"
  shows "\<exists>schedules. put_job (JObj kvs) jid job = Inr schedules"
proof (cases "map_of kvs ''jobs''")
  case None
  then have "''jobs'' \<notin> fst ` set kvs" by (simp add: map_of_eq_None_iff)
  with None show ?thesis by (simp add: put_job_def Let_def map_add_def)
next
  case (Some v)
  then have "''jobs'' \<in> fst ` set kvs" by (metis map_of_eq_None_iff option.distinct(1))
  moreover from Some assms obtain jobs where "v = JObj jobs" by auto
  ultimately show ?thesis using Some by (simp add: put_job_def Let_def)
qed

lemma add_valid:
  assumes "given (job_id p)" and "given (cron p) \<or> given (run_at p)" and "given (prompt p)"
    and "given (cron p) \<longrightarrow> \<not> isl (parse_cron (the (cron p)))"
    and "given (run_at p) \<longrightarrow> f (replace_Z (the (run_at p))) \<noteq> None"
    and "get_schedules gh = JObj kvs"
    and "map_of kvs ''jobs'' = None \<or> (\<exists>jobs. map_of kvs ''jobs'' = Some (JObj jobs))"
    and "policy gh = Accept"
  shows "\<exists>schedules. put_job (get_schedules gh) (the (job_id p)) (new_job p) = Inr schedules
           \<and> add f p gh = (SuccessResult,
                 gh\<lparr>variable := VarJson schedules, write_log := write_log gh @ [schedules]\<rparr>)"
proof -
  from put_job_total [OF assms(7)] assms(6) obtain schedules
    where s: "put_job (get_schedules gh) (the (job_id p)) (new_job p) = Inr schedules"
    by metis
  then show ?thesis
    using assms(1-5,8) by (auto simp: add_def save_schedules_def)
qed

lemma new_job_fields:
  "map_of (new_job p) ''prompt'' = Some (JStr (the (prompt p)))"
  "map_of (new_job p) ''enabled'' = Some (JBool True)"
  "map_of (new_job p) ''cron'' = (if given (cron p) then Some (JStr (the (cron p))) else None)"
  "map_of (new_job p) ''run_at'' = (if given (run_at p) then Some (JStr (the (run_at p))) else None)"
  "map_of (new_job p) ''once'' = (if given (run_at p) \<and> once p then Some (JBool True) else None)"
  "map_of (new_job p) ''system_prompt''
     = (if given (system_prompt p) then Some (JStr (the (system_prompt p))) else None)"
  "map_of (new_job p) ''tools'' = (if given (tools p) then Some (JStr (the (tools p))) else None)"
  "map_of (new_job p) ''model'' = (if given (model p) then Some (JStr (the (model p))) else None)"
  "map_of (new_job p) ''max_tokens''
     = (if given_int (max_tokens p) then Some (JInt (the (max_tokens p))) else None)"
  "map_of (new_job p) ''context'' = (if given (context' p) then Some (JStr (the (context' p))) else None)"
  by (simp_all add: new_job_def)

lemma new_job_keys:
  "fst ` set (new_job p) \<subseteq> {''prompt'', ''enabled'', ''cron'', ''run_at'', ''once'', ''system_prompt'',
                               ''tools'', ''model'', ''max_tokens'', ''context''}"
  by (auto simp: new_job_def split: if_splits)

text \<open>
  Claim C4, as the code has it. An \<open>add\<close> that passes validation, on a stored document
  that is a JSON object (with \<open>jobs\<close> an object or absent) and a store that accepts the
  write, succeeds, and a following \<open>get\<close> of the same identifier returns exactly the job
  built from the input alone: nothing of a job stored before under that identifier
  remains, and \<open>enabled\<close> is true whatever it was before. The job holds \<open>prompt\<close>;
  \<open>cron\<close> and \<open>run_at\<close> when given; \<open>once\<close> only when \<open>run_at\<close> is given and
  \<open>once\<close> is true; and \<open>system_prompt\<close>, \<open>tools\<close>, \<open>model\<close>, \<open>max_tokens\<close>,
  \<open>context\<close> only when the input value is not empty and not zero.
\<close>

theorem add_get_roundtrip:
  assumes "given (job_id p)" and "given (cron p) \<or> given (run_at p)" and "given (prompt p)"
    and "given (cron p) \<longrightarrow> \<not> isl (parse_cron (the (cron p)))"
    and "given (run_at p) \<longrightarrow> f (replace_Z (the (run_at p))) \<noteq> None"
    and "get_schedules gh = JObj kvs"
    and "map_of kvs ''jobs'' = None \<or> (\<exists>jobs. map_of kvs ''jobs'' = Some (JObj jobs))"
    and "policy gh = Accept"
  shows "fst (add f p gh) = SuccessResult
         \<and> fst (get p (snd (add f p gh))) = JobResult (JObj (new_job p))
         \<and> fst ` set (new_job p) \<subseteq> {''prompt'', ''enabled'', ''cron'', ''run_at'', ''once'',
               ''system_prompt'', ''tools'', ''model'', ''max_tokens'', ''context''}
         \<and> map_of (new_job p) ''enabled'' = Some (JBool True)
         \<and> map_of (new_job p) ''prompt'' = Some (JStr (the (prompt p)))
         \<and> map_of (new_job p) ''cron'' = (if given (cron p) then Some (JStr (the (cron p))) else None)
         \<and> map_of (new_job p) ''run_at'' = (if given (run_at p) then Some (JStr (the (run_at p))) else None)
         \<and> map_of (new_job p) ''once'' = (if given (run_at p) \<and> once p then Some (JBool True) else None)
         \<and> map_of (new_job p) ''system_prompt''
             = (if given (system_prompt p) then Some (JStr (the (system_prompt p))) else None)
         \<and> map_of (new_job p) ''tools'' = (if given (tools p) then Some (JStr (the (tools p))) else None)
         \<and> map_of (new_job p) ''model'' = (if given (model p) then Some (JStr (the (model p))) else None)
         \<and> map_of (new_job p) ''max_tokens''
             = (if given_int (max_tokens p) then Some (JInt (the (max_tokens p))) else None)
         \<and> map_of (new_job p) ''context''
             = (if given (context' p) then Some (JStr (the (context' p))) else None)"
proof -
  from add_valid [where f = f, OF assms] obtain schedules
    where s: "put_job (get_schedules gh) (the (job_id p)) (new_job p) = Inr schedules"
      and a: "add f p gh = (SuccessResult,
                 gh\<lparr>variable := VarJson schedules, write_log := write_log gh @ [schedules]\<rparr>)"
    by blast
  have "get p (snd (add f p gh)) = (JobResult (JObj (new_job p)), snd (add f p gh))"
    by (rule put_job_get [OF s assms(1) refl]) (simp add: a get_schedules_def)
  then show ?thesis
    using new_job_keys [of p] by (simp add: a new_job_fields)
qed

theorem add_get_roundtrip_witness:
  "fst (get \<lparr>job_id = Some ''deploy'', cron = None, run_at = Some ''2024-01-20T14:00:00Z'',
             once = True, prompt = Some ''Deploy the release'', system_prompt = None,
             tools = Some ''strands_tools:shell'', model = None, max_tokens = Some 10000,
             context' = None, repository = None\<rparr>
        (snd (add fromisoformat_std
           \<lparr>job_id = Some ''deploy'', cron = None, run_at = Some ''2024-01-20T14:00:00Z'',
             once = True, prompt = Some ''Deploy the release'', system_prompt = None,
             tools = Some ''strands_tools:shell'', model = None, max_tokens = Some 10000,
             context' = None, repository = None\<rparr>
           \<lparr>variable = VarJson (JObj [(''jobs'', JObj
                [(''deploy'', JObj [(''prompt'', JStr ''old''), (''enabled'', JBool False),
                                    (''cron'', JStr ''0 9 * * *''), (''model'', JStr ''m'')])]),
              (''timezone'', JStr ''UTC'')]),
            policy = Accept, write_log = []\<rparr>)))
   = JobResult (JObj [(''prompt'', JStr ''Deploy the release''), (''enabled'', JBool True),
                      (''run_at'', JStr ''2024-01-20T14:00:00Z''), (''once'', JBool True),
                      (''tools'', JStr ''strands_tools:shell''), (''max_tokens'', JInt 10000)])"
proof -
  let ?p = "\<lparr>job_id = Some ''deploy'', cron = None, run_at = Some ''2024-01-20T14:00:00Z'',
             once = True, prompt = Some ''Deploy the release'', system_prompt = None,
             tools = Some ''strands_tools:shell'', model = None, max_tokens = Some 10000,
             context' = None, repository = None\<rparr>"
  let ?kvs = "[(''jobs'', JObj
                [(''deploy'', JObj [(''prompt'', JStr ''old''), (''enabled'', JBool False),
                                    (''cron'', JStr ''0 9 * * *''), (''model'', JStr ''m'')])]),
              (''timezone'', JStr ''UTC'')]"
  let ?gh = "\<lparr>variable = VarJson (JObj ?kvs), policy = Accept, write_log = []\<rparr>"
  have 1: "given (job_id ?p)" by (simp add: given_def)
  have 2: "given (cron ?p) \<or> given (run_at ?p)" by (simp add: given_def)
  have 3: "given (prompt ?p)" by (simp add: given_def)
  have 4: "given (cron ?p) \<longrightarrow> \<not> isl (parse_cron (the (cron ?p)))" by (simp add: given_def)
  have "fromisoformat_std (replace_Z ''2024-01-20T14:00:00Z'')
          = Some (\<lparr>year = 2024, month = 1, day = 20, hour = 14, minute = 0, second = 0,
                     microsecond = 0\<rparr>, Some 0)" by code_simp
  then have 5: "given (run_at ?p) \<longrightarrow> fromisoformat_std (replace_Z (the (run_at ?p))) \<noteq> None"
    by simp
  have 6: "get_schedules ?gh = JObj ?kvs" by (simp add: get_schedules_def)
  have 7: "map_of ?kvs ''jobs'' = None \<or> (\<exists>jobs. map_of ?kvs ''jobs'' = Some (JObj jobs))" by simp
  have 8: "policy ?gh = Accept" by simp
  have "fst (get ?p (snd (add fromisoformat_std ?p ?gh))) = JobResult (JObj (new_job ?p))"
    using add_get_roundtrip [where f = fromisoformat_std and p = ?p and gh = ?gh and kvs = ?kvs,
        OF 1 2 3 4 5 6 7 8]
    by blast
  then show ?thesis by (simp add: new_job_def given_def given_int_def)
qed

theorem add_get_roundtrip_counterexample:
  "fst (get \<lparr>job_id = Some ''review'', cron = Some ''0 9 * * 1-5'', run_at = None,
             once = True, prompt = Some ''Review open PRs'', system_prompt = None,
             tools = None, model = None, max_tokens = None, context' = None, repository = None\<rparr>
        (snd (add fromisoformat_std
           \<lparr>job_id = Some ''review'', cron = Some ''0 9 * * 1-5'', run_at = None,
             once = True, prompt = Some ''Review open PRs'', system_prompt = None,
             tools = None, model = None, max_tokens = None, context' = None, repository = None\<rparr>
           \<lparr>variable = VarMissing, policy = Accept, write_log = []\<rparr>)))
   = JobResult (JObj [(''prompt'', JStr ''Review open PRs''), (''enabled'', JBool True),
                      (''cron'', JStr ''0 9 * * 1-5'')])
   \<and> map_of [(''prompt'', JStr ''Review open PRs''), (''enabled'', JBool True),
              (''cron'', JStr ''0 9 * * 1-5'')] ''once'' = None"
  by code_simp

section \<open>Cron jobs and the once flag\<close>

lemma stored_job_as_objects:
  assumes "get_schedules gh = JObj kvs" and "map_of kvs ''jobs'' = Some (JObj (as_objects jobs))"
    and "distinct (map fst jobs)" and "(jid, job) \<in> set jobs"
  shows "stored_job gh jid = Inr (JObj job)"
proof -
  have "distinct (map fst (as_objects jobs))"
    using assms(3) by (simp add: as_objects_def o_def case_prod_unfold)
  moreover have "(jid, JObj job) \<in> set (as_objects jobs)"
    using assms(4) by (force simp: as_objects_def)
  ultimately have "map_of (as_objects jobs) jid = Some (JObj job)" by (rule map_of_is_SomeI)
  then show ?thesis
    using assms(1,2) by (simp add: stored_job_def and_then_def)
qed

text \<open>
  Claim C10. An \<open>add\<close> with a cron trigger and no \<open>run_at\<close> stores a job without a
  \<open>once\<close> key, whatever the \<open>once\<close> argument is. In \<open>check\<close> every identifier put on
  the removal list belongs to a job whose \<open>run_at\<close> matched, so a job without a
  \<open>run_at\<close> value is never on the list and is still stored, unchanged, after \<open>check\<close>,
  whatever its \<open>once\<close> value is.
\<close>

theorem cron_job_never_retired:
  "(given (cron p) \<and> \<not> given (run_at p) \<longrightarrow>
      map_of (new_job p) ''once'' = None
      \<and> (\<forall>gh gh'. add f p gh = (SuccessResult, gh') \<longrightarrow>
            stored_job gh' (the (job_id p)) = Inr (JObj (new_job p))))
   \<and> (variable gh = VarJson (JObj kvs) \<and> map_of kvs ''jobs'' = Some (JObj (as_objects jobs))
        \<and> distinct (map fst jobs) \<longrightarrow>
        (\<exists>due rem. check_loop f now (as_objects jobs) = Inr (due, rem)
           \<and> (\<forall>k \<in> set rem. \<exists>j. (k, j) \<in> set jobs \<and> run_at_hit f now j)
           \<and> (\<forall>jid job. (jid, job) \<in> set jobs \<and> \<not> truthy (dget job ''run_at'' JNull) \<longrightarrow>
                 jid \<notin> set rem \<and> stored_job (snd (check f now gh)) jid = Inr (JObj job))))"
proof (intro conjI impI)
  assume "given (cron p) \<and> \<not> given (run_at p)"
  then show "map_of (new_job p) ''once'' = None" by (simp add: new_job_fields)
next
  show "\<forall>gh gh'. add f p gh = (SuccessResult, gh') \<longrightarrow>
            stored_job gh' (the (job_id p)) = Inr (JObj (new_job p))"
    using add_then_stored(1) by blast
next
  assume a: "variable gh = VarJson (JObj kvs) \<and> map_of kvs ''jobs'' = Some (JObj (as_objects jobs))
        \<and> distinct (map fst jobs)"
  then have v: "variable gh = VarJson (JObj kvs)"
    and m: "map_of kvs ''jobs'' = Some (JObj (as_objects jobs))"
    and d: "distinct (map fst jobs)" by simp_all
  let ?rem = "retired_ids f now jobs"
  let ?kvs1 = "AList.update ''jobs'' (JObj (as_objects (kept_jobs f now jobs))) kvs"
  have path: "\<forall>k \<in> set ?rem. \<exists>j. (k, j) \<in> set jobs \<and> run_at_hit f now j"
    by (auto simp: retired_ids_def job_retired_def)
  have keep: "jid \<notin> set ?rem \<and> stored_job (snd (check f now gh)) jid = Inr (JObj job)"
    if mem: "(jid, job) \<in> set jobs" and nr: "\<not> truthy (dget job ''run_at'' JNull)" for jid job
  proof -
    from nr have nret: "\<not> job_retired f now job"
      by (simp add: job_retired_def run_at_hit_def)
    have notin: "jid \<notin> set ?rem"
    proof
      assume "jid \<in> set ?rem"
      then obtain job' where "(jid, job') \<in> set jobs" "job_retired f now job'"
        by (auto simp: retired_ids_def)
      moreover from this mem d have "job' = job" by (meson eq_key_imp_eq_value)
      ultimately show False using nret by simp
    qed
    have before: "stored_job gh' jid = Inr (JObj job)" if "variable gh' = variable gh" for gh'
      by (rule stored_job_as_objects [OF _ m d mem]) (simp add: get_schedules_def that v)
    have kept: "(jid, job) \<in> set (kept_jobs f now jobs)"
      using mem nret by (simp add: kept_jobs_def)
    have d1: "distinct (map fst (kept_jobs f now jobs))"
      using d by (simp add: kept_jobs_def distinct_map_filter)
    have after: "stored_job gh' jid = Inr (JObj job)" if "variable gh' = VarJson (JObj ?kvs1)" for gh'
      by (rule stored_job_as_objects [OF _ _ d1 kept, where kvs = ?kvs1])
        (simp_all add: get_schedules_def that update_conv')
    have "stored_job (snd (check f now gh)) jid = Inr (JObj job)"
      unfolding check_as_objects [OF v m d]
      by (cases "policy gh") (simp_all add: save_schedules_def before after)
    with notin show ?thesis by simp
  qed
  show "\<exists>due rem. check_loop f now (as_objects jobs) = Inr (due, rem)
           \<and> (\<forall>k \<in> set rem. \<exists>j. (k, j) \<in> set jobs \<and> run_at_hit f now j)
           \<and> (\<forall>jid job. (jid, job) \<in> set jobs \<and> \<not> truthy (dget job ''run_at'' JNull) \<longrightarrow>
                 jid \<notin> set rem \<and> stored_job (snd (check f now gh)) jid = Inr (JObj job))"
    apply (rule exI [of _ "due_records f now jobs"], rule exI [of _ ?rem])
    using path keep by (auto simp: check_loop_as_objects)
qed

theorem cron_job_never_retired_witness:
  "map_of (new_job \<lparr>job_id = Some ''review'', cron = Some ''0 9 * * 1-5'', run_at = None,
             once = True, prompt = Some ''Review open PRs'', system_prompt = None,
             tools = None, model = None, max_tokens = None, context' = None, repository = None\<rparr>)
     ''once'' = None
   \<and> stored_job (snd (check fromisoformat_std
         \<lparr>year = 2024, month = 1, day = 17, hour = 9, minute = 0, second = 0, microsecond = 0\<rparr>
         \<lparr>variable = VarJson (JObj [(''jobs'', JObj
              [(''review'', JObj [(''prompt'', JStr ''Review open PRs''), (''enabled'', JBool True),
                                  (''cron'', JStr ''0 9 * * 1-5''), (''once'', JBool True)])])]),
           policy = Accept, write_log = []\<rparr>)) ''review''
     = Inr (JObj [(''prompt'', JStr ''Review open PRs''), (''enabled'', JBool True),
                  (''cron'', JStr ''0 9 * * 1-5''), (''once'', JBool True)])"
proof -
  let ?p = "\<lparr>job_id = Some ''review'', cron = Some ''0 9 * * 1-5'', run_at = None,
             once = True, prompt = Some ''Review open PRs'', system_prompt = None,
             tools = None, model = None, max_tokens = None, context' = None, repository = None\<rparr>"
  let ?now = "\<lparr>year = 2024, month = 1, day = 17, hour = 9, minute = 0, second = 0, microsecond = 0\<rparr>"
  let ?job = "[(''prompt'', JStr ''Review open PRs''), (''enabled'', JBool True),
               (''cron'', JStr ''0 9 * * 1-5''), (''once'', JBool True)]"
  let ?jobs = "[(''review'', ?job)]"
  let ?kvs = "[(''jobs'', JObj (as_objects ?jobs))]"
  let ?gh = "\<lparr>variable = VarJson (JObj ?kvs), policy = Accept, write_log = []\<rparr>"
  note inst = cron_job_never_retired [where p = ?p and f = fromisoformat_std and gh = ?gh
      and kvs = ?kvs and jobs = ?jobs and now = ?now]
  have a1: "given (cron ?p) \<and> \<not> given (run_at ?p)" by (simp add: given_def)
  have a2: "variable ?gh = VarJson (JObj ?kvs) \<and> map_of ?kvs ''jobs'' = Some (JObj (as_objects ?jobs))
        \<and> distinct (map fst ?jobs)" by simp
  have a3: "(''review'', ?job) \<in> set ?jobs \<and> \<not> truthy (dget ?job ''run_at'' JNull)"
    by (simp add: dget_def)
  from inst a1 have 1: "map_of (new_job ?p) ''once'' = None" by blast
  from inst a2 a3 have 2: "stored_job (snd (check fromisoformat_std ?now ?gh)) ''review'' = Inr (JObj ?job)"
    by blast
  from 1 2 show ?thesis by (simp add: as_objects_def)
qed

section \<open>Validation in \<open>add\<close>\<close>




section \<open>Field and option lookup in \<open>update_item\<close>\<close>










section \<open>The counters of \<open>get_progress\<close>\<close>

lemma counts_get_set:
  "counts_get (counts_set cs k v) k' = (if key_eq k k' then v else counts_get cs k')"
  by (induction cs) (auto simp: key_eq_def)

lemma has_key_set: "has_key (counts_set cs k v) k' \<longleftrightarrow> key_eq k k' \<or> has_key cs k'"
  by (induction cs) (auto simp: has_key_def key_eq_def split: if_splits)

lemma init_counts_keep:
  "init_counts cs opts = Inr cs' \<Longrightarrow> has_key cs k \<Longrightarrow> has_key cs' k"
proof (induction opts arbitrary: cs)
  case Nil
  then show ?case by simp
next
  case (Cons opt opts)
  from Cons.prems(1) obtain n where rest: "init_counts (counts_set cs n 0) opts = Inr cs'"
    by (auto simp: and_then_def split: sum.splits if_splits)
  show ?case
    by (rule Cons.IH [OF rest]) (simp add: has_key_set Cons.prems(2))
qed

lemma init_counts_zero:
  "init_counts cs opts = Inr cs' \<Longrightarrow> \<forall>k. counts_get cs k = 0 \<Longrightarrow> counts_get cs' k = 0"
proof (induction opts arbitrary: cs)
  case Nil
  then show ?case by simp
next
  case (Cons opt opts)
  from Cons.prems(1) obtain n where n: "py_getitem opt ''name'' = Inr n" "hashable n"
    and rest: "init_counts (counts_set cs n 0) opts = Inr cs'"
    by (auto simp: and_then_def split: sum.splits if_splits)
  have "\<forall>k. counts_get (counts_set cs n 0) k = 0"
    using Cons.prems(2) by (simp add: counts_get_set)
  with Cons.IH [OF rest] show ?case by simp
qed

lemma init_counts_keys:
  "init_counts cs opts = Inr cs' \<Longrightarrow> opt \<in> set opts \<Longrightarrow> py_getitem opt ''name'' = Inr n \<Longrightarrow>
     has_key cs' n"
proof (induction opts arbitrary: cs)
  case Nil
  then show ?case by simp
next
  case (Cons x opts)
  from Cons.prems(1) obtain m where m: "py_getitem x ''name'' = Inr m"
    and rest: "init_counts (counts_set cs m 0) opts = Inr cs'"
    by (auto simp: and_then_def split: sum.splits if_splits)
  show ?case
  proof (cases "opt = x")
    case True
    with m Cons.prems(3) have "m = n" by simp
    then have "has_key (counts_set cs m 0) n" by (simp add: has_key_set key_eq_def)
    then show ?thesis by (rule init_counts_keep [OF rest])
  next
    case False
    with Cons.prems(2) have "opt \<in> set opts" by simp
    then show ?thesis by (rule Cons.IH [OF rest _ Cons.prems(3)])
  qed
qed

lemma py_get_dget: "py_get (JObj kvs) k d = Inr (dget kvs k d)"
  by (simp add: dget_def)

lemma py_get_Inr: "py_get x k d = Inr v \<Longrightarrow> \<exists>kvs. x = JObj kvs \<and> v = dget kvs k d"
  by (cases x) (auto simp: dget_def)

lemma counts_get_key_eq: "key_eq a b \<Longrightarrow> counts_get cs a = counts_get cs b"
  by (induction cs) (auto simp: key_eq_def)

lemma count_status_step:
  assumes "count_status cs (fv # fvs) = Inr cs'"
  shows "\<exists>cs1. count_status cs1 fvs = Inr cs'
           \<and> (\<forall>k. counts_get cs1 k = counts_get cs k + (if status_value k fv then 1 else 0))
           \<and> (\<forall>k. has_key cs k \<longrightarrow> has_key cs1 k)"
proof -
  from assms obtain fld fname n
    where 1: "py_get fv ''field'' (JObj []) = Inr fld"
      and 2: "py_get fld ''name'' JNull = Inr fname"
      and 3: "py_get fv ''name'' JNull = Inr n"
    by (auto simp: and_then_def split: sum.splits)
  from py_get_Inr [OF 1] obtain kvs where fv: "fv = JObj kvs" "fld = dget kvs ''field'' (JObj [])"
    by blast
  from py_get_Inr [OF 2] obtain f where f: "fld = JObj f" "fname = dget f ''name'' JNull"
    by blast
  from 3 fv have n: "n = dget kvs ''name'' JNull" by (auto simp: dget_def)
  from fv f have fld: "dget kvs ''field'' (JObj []) = JObj f" by simp
  show ?thesis
  proof (cases "fname = JStr ''Status'' \<and> truthy n")
    case True
    with assms 1 2 3 have h: "hashable n"
      and rest: "count_status (counts_set cs n (counts_get cs n + 1)) fvs = Inr cs'"
      by (auto simp: and_then_def split: if_splits)
    have sv: "status_value k fv = key_eq n k" for k
      using True fv(1) f(2) n fld by simp
    show ?thesis
      apply (rule exI [of _ "counts_set cs n (counts_get cs n + 1)"])
      using rest sv by (auto simp: counts_get_set has_key_set dest: counts_get_key_eq)
  next
    case False
    with assms 1 2 3 have rest: "count_status cs fvs = Inr cs'"
      by (auto simp: and_then_def split: if_splits)
    have sv: "\<not> status_value k fv" for k
      using False fv(1) f(2) n fld by auto
    show ?thesis
      apply (rule exI [of _ cs])
      using rest sv by simp
  qed
qed

lemma count_status_counts:
  "count_status cs fvs = Inr cs' \<Longrightarrow>
     counts_get cs' k = counts_get cs k + int (length (filter (status_value k) fvs))
     \<and> (has_key cs k \<longrightarrow> has_key cs' k)"
proof (induction fvs arbitrary: cs)
  case Nil
  then show ?case by simp
next
  case (Cons fv fvs)
  from count_status_step [OF Cons.prems] obtain cs1
    where rest: "count_status cs1 fvs = Inr cs'"
      and c: "counts_get cs1 k = counts_get cs k + (if status_value k fv then 1 else 0)"
      and h: "has_key cs k \<longrightarrow> has_key cs1 k"
    by blast
  from Cons.IH [OF rest] c h show ?case by auto
qed

lemma count_kind_effect:
  assumes "count_kind t (dget item ''type'' (JStr [])) (dget item ''content'' (JObj [])) = Inr t1"
    and "\<not> truthy (dget item ''isArchived'' JNull)"
  shows "issues_open t1 = issues_open t + (if classify (JObj item) = OpenIssue then 1 else 0)"
    and "issues_closed t1 = issues_closed t + (if classify (JObj item) = ClosedIssue then 1 else 0)"
    and "prs_open t1 = prs_open t + (if classify (JObj item) = OpenPR then 1 else 0)"
    and "prs_merged t1 = prs_merged t + (if classify (JObj item) = MergedPR then 1 else 0)"
    and "prs_closed t1 = prs_closed t + (if classify (JObj item) = ClosedPR then 1 else 0)"
    and "drafts t1 = drafts t + (if classify (JObj item) = Draft then 1 else 0)"
    and "archived t1 = archived t" and "status_counts t1 = status_counts t"
proof -
  let ?ty = "dget item ''type'' (JStr [])"
  let ?content = "dget item ''content'' (JObj [])"
  have st: "content_state item = s" if "py_get ?content ''state'' (JStr []) = Inr s" for s
    using py_get_Inr [OF that] by (auto simp: content_state_def)
  consider (issue) "?ty = JStr ''ISSUE''" | (pr) "?ty = JStr ''PULL_REQUEST''"
    | (draft) "?ty = JStr ''DRAFT_ISSUE''"
    | (other) "?ty \<noteq> JStr ''ISSUE''" "?ty \<noteq> JStr ''PULL_REQUEST''" "?ty \<noteq> JStr ''DRAFT_ISSUE''"
    by blast
  then have "issues_open t1 = issues_open t + (if classify (JObj item) = OpenIssue then 1 else 0)
    \<and> issues_closed t1 = issues_closed t + (if classify (JObj item) = ClosedIssue then 1 else 0)
    \<and> prs_open t1 = prs_open t + (if classify (JObj item) = OpenPR then 1 else 0)
    \<and> prs_merged t1 = prs_merged t + (if classify (JObj item) = MergedPR then 1 else 0)
    \<and> prs_closed t1 = prs_closed t + (if classify (JObj item) = ClosedPR then 1 else 0)
    \<and> drafts t1 = drafts t + (if classify (JObj item) = Draft then 1 else 0)
    \<and> archived t1 = archived t \<and> status_counts t1 = status_counts t"
  proof cases
    case issue
    with assms(1) obtain s where s: "py_get ?content ''state'' (JStr []) = Inr s"
      by (auto simp: count_kind_def and_then_def split: sum.splits)
    from assms issue s st [OF s] show ?thesis
      by (auto simp: count_kind_def and_then_def split: if_splits)
  next
    case pr
    with assms(1) obtain s where s: "py_get ?content ''state'' (JStr []) = Inr s"
      by (auto simp: count_kind_def and_then_def split: sum.splits)
    from assms pr s st [OF s] show ?thesis
      by (auto simp: count_kind_def and_then_def split: if_splits)
  next
    case draft
    with assms show ?thesis by (auto simp: count_kind_def)
  next
    case other
    with assms show ?thesis by (auto simp: count_kind_def)
  qed
  then show "issues_open t1 = issues_open t + (if classify (JObj item) = OpenIssue then 1 else 0)"
    and "issues_closed t1 = issues_closed t + (if classify (JObj item) = ClosedIssue then 1 else 0)"
    and "prs_open t1 = prs_open t + (if classify (JObj item) = OpenPR then 1 else 0)"
    and "prs_merged t1 = prs_merged t + (if classify (JObj item) = MergedPR then 1 else 0)"
    and "prs_closed t1 = prs_closed t + (if classify (JObj item) = ClosedPR then 1 else 0)"
    and "drafts t1 = drafts t + (if classify (JObj item) = Draft then 1 else 0)"
    and "archived t1 = archived t" and "status_counts t1 = status_counts t"
    by simp_all
qed

lemma count_item_effect:
  assumes "count_item t item = Inr t'"
  shows "issues_open t' = issues_open t + (if classify item = OpenIssue then 1 else 0)
    \<and> issues_closed t' = issues_closed t + (if classify item = ClosedIssue then 1 else 0)
    \<and> prs_open t' = prs_open t + (if classify item = OpenPR then 1 else 0)
    \<and> prs_merged t' = prs_merged t + (if classify item = MergedPR then 1 else 0)
    \<and> prs_closed t' = prs_closed t + (if classify item = ClosedPR then 1 else 0)
    \<and> drafts t' = drafts t + (if classify item = Draft then 1 else 0)
    \<and> archived t' = archived t + (if classify item = Archived then 1 else 0)
    \<and> (\<forall>k. counts_get (status_counts t') k = counts_get (status_counts t) k + item_hits k item)
    \<and> (\<forall>k. has_key (status_counts t) k \<longrightarrow> has_key (status_counts t') k)"
proof -
  from assms obtain a where "py_get item ''isArchived'' JNull = Inr a"
    by (auto simp: count_item_def and_then_def split: sum.splits)
  from py_get_Inr [OF this] obtain kvs where item: "item = JObj kvs" by blast
  show ?thesis
  proof (cases "truthy (dget kvs ''isArchived'' JNull)")
    case True
    with assms item have "t' = t\<lparr>archived := archived t + 1\<rparr>"
      by (simp add: count_item_def and_then_def py_get_dget del: py_get.simps)
    with True item show ?thesis by (simp add: item_hits_def)
  next
    case False
    with assms item obtain t1 fv_list cs
      where k: "count_kind t (dget kvs ''type'' (JStr [])) (dget kvs ''content'' (JObj [])) = Inr t1"
        and fv: "and_then (py_get item ''fieldValues'' (JObj [])) (\<lambda>fvs.
                   and_then (py_get fvs ''nodes'' (JArr [])) py_iter) = Inr fv_list"
        and cs: "count_status (status_counts t1) fv_list = Inr cs"
        and t': "t' = t1\<lparr>status_counts := cs\<rparr>"
      by (auto simp add: count_item_def and_then_def py_get_dget simp del: py_get.simps
          split: sum.splits)
    from fv have fvl: "field_values item = fv_list" by (simp add: field_values_def)
    note ke = count_kind_effect [OF k False]
    from False item have na: "classify item \<noteq> Archived" by auto
    have hits: "item_hits k item = int (length (filter (status_value k) fv_list))" for k
      using na fvl by (simp add: item_hits_def)
    from count_status_counts [OF cs] ke(8) hits t'
    have "(\<forall>k. counts_get (status_counts t') k = counts_get (status_counts t) k + item_hits k item)
        \<and> (\<forall>k. has_key (status_counts t) k \<longrightarrow> has_key (status_counts t') k)"
      by simp
    with ke t' item na show ?thesis by simp
  qed
qed

lemma count_items_effect:
  "count_items t items = Inr t' \<Longrightarrow>
     issues_open t' = issues_open t + count_class OpenIssue items
    \<and> issues_closed t' = issues_closed t + count_class ClosedIssue items
    \<and> prs_open t' = prs_open t + count_class OpenPR items
    \<and> prs_merged t' = prs_merged t + count_class MergedPR items
    \<and> prs_closed t' = prs_closed t + count_class ClosedPR items
    \<and> drafts t' = drafts t + count_class Draft items
    \<and> archived t' = archived t + count_class Archived items
    \<and> (\<forall>k. counts_get (status_counts t') k = counts_get (status_counts t) k + status_hits k items)
    \<and> (\<forall>k. has_key (status_counts t) k \<longrightarrow> has_key (status_counts t') k)"
proof (induction items arbitrary: t)
  case Nil
  then show ?case by (simp add: count_class_def status_hits_def)
next
  case (Cons item items)
  from Cons.prems obtain t1 where 1: "count_item t item = Inr t1"
    and 2: "count_items t1 items = Inr t'"
    by (auto simp: and_then_def split: sum.splits)
  from count_item_effect [OF 1] Cons.IH [OF 2] show ?case
    by (simp add: count_class_def status_hits_def)
qed

lemma get_progress_Inr:
  assumes "get_progress execute pid = Inr r"
    and "get_project execute pid 100 = Inr project"
    and "py_get project ''items'' (JObj []) = Inr items_obj"
    and "py_get items_obj ''nodes'' (JArr []) = Inr (JArr items)"
  shows "\<exists>fs field_nodes field_list status_field counts0 t.
           py_get project ''fields'' (JObj []) = Inr fs
         \<and> py_get fs ''nodes'' (JArr []) = Inr field_nodes
         \<and> py_iter field_nodes = Inr field_list
         \<and> find_named ''Status'' field_list = Inr status_field
         \<and> (case status_field of
               Some (JObj sf) \<Rightarrow>
                 (case map_of sf ''options'' of
                    Some opts \<Rightarrow> and_then (py_iter opts) (\<lambda>opt_list. init_counts [] opt_list)
                  | None \<Rightarrow> Inr [])
             | _ \<Rightarrow> Inr []) = Inr counts0
         \<and> count_items \<lparr>issues_open = 0, issues_closed = 0, prs_open = 0, prs_merged = 0,
                          prs_closed = 0, drafts = 0, archived = 0, status_counts = counts0\<rparr>
               items = Inr t
         \<and> issues r = (issues_open t, issues_closed t, issues_open t + issues_closed t)
         \<and> pull_requests r = (prs_open t, prs_merged t, prs_closed t,
                               prs_open t + prs_merged t + prs_closed t)
         \<and> draft_count r = drafts t \<and> archived_items r = archived t
         \<and> by_status r = status_counts t"
proof -
  have it: "py_iter (JArr items) = Inr items" by simp
  from assms(1) show ?thesis
    unfolding get_progress_def assms(2) and_then_def sum.case assms(3) assms(4) it
    by (auto split: sum.splits)
qed

lemma class_counts_total:
  "count_class Archived items + count_class OpenIssue items + count_class ClosedIssue items
   + count_class OpenPR items + count_class MergedPR items + count_class ClosedPR items
   + count_class Draft items + count_class Other items = int (length items)"
proof (induction items)
  case Nil
  then show ?case by (simp add: count_class_def)
next
  case (Cons item items)
  then show ?case by (cases "classify item") (simp_all add: count_class_def)
qed

lemma count_class_nonneg: "0 \<le> count_class c items"
  by (simp add: count_class_def)

lemma initial_counts_zero:
  assumes "(case status_field of
               Some (JObj sf) \<Rightarrow>
                 (case map_of sf ''options'' of
                    Some opts \<Rightarrow> and_then (py_iter opts) (\<lambda>opt_list. init_counts [] opt_list)
                  | None \<Rightarrow> Inr [])
             | _ \<Rightarrow> Inr []) = Inr counts0"
  shows "counts_get counts0 k = 0"
proof -
  have z: "\<forall>k. counts_get [] k = 0" by simp
  from assms show ?thesis
    by (auto simp: and_then_def split: option.splits json.splits sum.splits
        dest: init_counts_zero [OF _ z])
qed

text \<open>
  Claim C9. When \<open>get_progress\<close> returns a report for the fetched items, every counter
  is the number of fetched items of its class, where an archived item belongs to the
  class of archived items only: it is in none of the issue, pull request and draft
  counts and its field values are not counted in \<open>by_status\<close>. So with 3 open issues,
  1 closed issue, 2 merged pull requests and 1 archived item the report has issues
  open 3, closed 1, total 4, pull requests merged 2 and archived 1, all other counts 0.
  For every project, each option declared by the field named \<open>Status\<close> is a key of
  \<open>by_status\<close>, and the count of any key is the number of \<open>Status\<close> values with that
  name on the items that are not archived, which is zero for an option no item uses.
\<close>

theorem get_progress_counts:
  assumes "get_project execute pid 100 = Inr project"
    and "py_get project ''items'' (JObj []) = Inr items_obj"
    and "py_get items_obj ''nodes'' (JArr []) = Inr (JArr items)"
    and "get_progress execute pid = Inr r"
  shows "issues r = (count_class OpenIssue items, count_class ClosedIssue items,
                     count_class OpenIssue items + count_class ClosedIssue items)
         \<and> pull_requests r = (count_class OpenPR items, count_class MergedPR items,
                               count_class ClosedPR items,
                               count_class OpenPR items + count_class MergedPR items
                               + count_class ClosedPR items)
         \<and> draft_count r = count_class Draft items
         \<and> archived_items r = count_class Archived items
         \<and> (\<forall>k. counts_get (by_status r) k = status_hits k items)
         \<and> (\<forall>fs field_nodes field_list sf opts opt_list opt n.
               py_get project ''fields'' (JObj []) = Inr fs
               \<and> py_get fs ''nodes'' (JArr []) = Inr field_nodes
               \<and> py_iter field_nodes = Inr field_list
               \<and> find_named ''Status'' field_list = Inr (Some (JObj sf))
               \<and> map_of sf ''options'' = Some opts \<and> py_iter opts = Inr opt_list
               \<and> opt \<in> set opt_list \<and> py_getitem opt ''name'' = Inr n
               \<longrightarrow> has_key (by_status r) n \<and> counts_get (by_status r) n = status_hits n items)
         \<and> (length items = 7 \<and> count_class OpenIssue items = 3 \<and> count_class ClosedIssue items = 1
              \<and> count_class MergedPR items = 2 \<and> count_class Archived items = 1
              \<longrightarrow> issues r = (3, 1, 4) \<and> pull_requests r = (0, 2, 0, 2)
                  \<and> draft_count r = 0 \<and> archived_items r = 1)"
proof -
  from get_progress_Inr [OF assms(4) assms(1) assms(2) assms(3)]
  obtain fs field_nodes field_list status_field counts0 t
    where f1: "py_get project ''fields'' (JObj []) = Inr fs"
      and f2: "py_get fs ''nodes'' (JArr []) = Inr field_nodes"
      and f3: "py_iter field_nodes = Inr field_list"
      and f4: "find_named ''Status'' field_list = Inr status_field"
      and init: "(case status_field of
               Some (JObj sf) \<Rightarrow>
                 (case map_of sf ''options'' of
                    Some opts \<Rightarrow> and_then (py_iter opts) (\<lambda>opt_list. init_counts [] opt_list)
                  | None \<Rightarrow> Inr [])
             | _ \<Rightarrow> Inr []) = Inr counts0"
      and loop: "count_items \<lparr>issues_open = 0, issues_closed = 0, prs_open = 0, prs_merged = 0,
                          prs_closed = 0, drafts = 0, archived = 0, status_counts = counts0\<rparr>
               items = Inr t"
      and r: "issues r = (issues_open t, issues_closed t, issues_open t + issues_closed t)"
        "pull_requests r = (prs_open t, prs_merged t, prs_closed t,
                               prs_open t + prs_merged t + prs_closed t)"
        "draft_count r = drafts t" "archived_items r = archived t"
        "by_status r = status_counts t"
    by blast
  note eff = count_items_effect [OF loop]
  have c1: "issues r = (count_class OpenIssue items, count_class ClosedIssue items,
                     count_class OpenIssue items + count_class ClosedIssue items)"
    using eff r(1) by simp
  have c2: "pull_requests r = (count_class OpenPR items, count_class MergedPR items,
                               count_class ClosedPR items,
                               count_class OpenPR items + count_class MergedPR items
                               + count_class ClosedPR items)"
    using eff r(2) by simp
  have c3: "draft_count r = count_class Draft items" using eff r(3) by simp
  have c4: "archived_items r = count_class Archived items" using eff r(4) by simp
  have c5: "counts_get (by_status r) k = status_hits k items" for k
    using eff r(5) initial_counts_zero [OF init, of k] by simp
  have c6: "has_key (by_status r) n \<and> counts_get (by_status r) n = status_hits n items"
    if h: "py_get project ''fields'' (JObj []) = Inr fs'
               \<and> py_get fs' ''nodes'' (JArr []) = Inr field_nodes'
               \<and> py_iter field_nodes' = Inr field_list'
               \<and> find_named ''Status'' field_list' = Inr (Some (JObj sf))
               \<and> map_of sf ''options'' = Some opts \<and> py_iter opts = Inr opt_list
               \<and> opt \<in> set opt_list \<and> py_getitem opt ''name'' = Inr n"
    for fs' field_nodes' field_list' sf opts opt_list opt n
  proof -
    from h f1 have "fs' = fs" by simp
    with h f2 have "field_nodes' = field_nodes" by simp
    with h f3 have "field_list' = field_list" by simp
    with h f4 have "status_field = Some (JObj sf)" by simp
    with init h have "init_counts [] opt_list = Inr counts0" by (simp add: and_then_def)
    from init_counts_keys [OF this] h have "has_key counts0 n" by blast
    with eff r(5) have "has_key (by_status r) n" by simp
    with c5 show ?thesis by simp
  qed
  have c7: "issues r = (3, 1, 4) \<and> pull_requests r = (0, 2, 0, 2)
                  \<and> draft_count r = 0 \<and> archived_items r = 1"
    if s: "length items = 7 \<and> count_class OpenIssue items = 3 \<and> count_class ClosedIssue items = 1
              \<and> count_class MergedPR items = 2 \<and> count_class Archived items = 1"
  proof -
    from class_counts_total [of items] s
    have "count_class OpenPR items + count_class ClosedPR items
            + count_class Draft items + count_class Other items = 0" by simp
    with count_class_nonneg [of OpenPR items] count_class_nonneg [of ClosedPR items]
      count_class_nonneg [of Draft items] count_class_nonneg [of Other items]
    have "count_class OpenPR items = 0" "count_class ClosedPR items = 0"
      "count_class Draft items = 0" by linarith+
    with c1 c2 c3 c4 s show ?thesis by simp
  qed
  from c1 c2 c3 c4 c5 c6 c7 show ?thesis by blast
qed

theorem get_progress_counts_witness:
  "\<exists>r. get_progress (\<lambda>req. Inr (JObj [(''data'', JObj [(''node'',
      JObj [(''id'', JStr ''PVT_1''), (''title'', JStr ''Board''), (''number'', JInt 3),
            (''fields'', JObj [(''nodes'', JArr [JObj [(''id'', JStr ''F_status''), (''name'', JStr ''Status''), (''dataType'', JStr ''SINGLE_SELECT''), (''options'', JArr [JObj [(''id'', JStr ''o1''), (''name'', JStr ''Todo'')], JObj [(''id'', JStr ''o2''), (''name'', JStr ''In Progress'')], JObj [(''id'', JStr ''o3''), (''name'', JStr ''Done'')]])]])]),
            (''items'', JObj [(''totalCount'', JInt 7), (''nodes'', JArr
               [JObj [(''type'', JStr ''ISSUE''), (''isArchived'', JBool False), (''content'', JObj [(''state'', JStr ''OPEN'')]),
                      (''fieldValues'', JObj [(''nodes'', JArr [JObj [(''name'', JStr ''Todo''), (''field'', JObj [(''name'', JStr ''Status'')])]])])],
                JObj [(''type'', JStr ''ISSUE''), (''isArchived'', JBool False), (''content'', JObj [(''state'', JStr ''OPEN'')]),
                      (''fieldValues'', JObj [(''nodes'', JArr [JObj [(''name'', JStr ''Todo''), (''field'', JObj [(''name'', JStr ''Status'')])]])])],
                JObj [(''type'', JStr ''PULL_REQUEST''), (''isArchived'', JBool False), (''content'', JObj [(''state'', JStr ''MERGED'')]),
                      (''fieldValues'', JObj [(''nodes'', JArr [JObj [(''name'', JStr ''Done''), (''field'', JObj [(''name'', JStr ''Status'')])]])])],
                JObj [(''type'', JStr ''ISSUE''), (''isArchived'', JBool False), (''content'', JObj [(''state'', JStr ''CLOSED'')]),
                      (''fieldValues'', JObj [(''nodes'', JArr [JObj [(''name'', JStr ''Done''), (''field'', JObj [(''name'', JStr ''Status'')])]])])],
                JObj [(''type'', JStr ''ISSUE''), (''isArchived'', JBool True), (''content'', JObj [(''state'', JStr ''OPEN'')]),
                      (''fieldValues'', JObj [(''nodes'', JArr [JObj [(''name'', JStr ''Todo''), (''field'', JObj [(''name'', JStr ''Status'')])]])])],
                JObj [(''type'', JStr ''ISSUE''), (''isArchived'', JBool False), (''content'', JObj [(''state'', JStr ''OPEN'')]),
                      (''fieldValues'', JObj [(''nodes'', JArr [JObj [(''name'', JStr ''Todo''), (''field'', JObj [(''name'', JStr ''Status'')])]])])],
                JObj [(''type'', JStr ''PULL_REQUEST''), (''isArchived'', JBool False), (''content'', JObj [(''state'', JStr ''MERGED'')]),
                      (''fieldValues'', JObj [(''nodes'', JArr [JObj [(''name'', JStr ''Done''), (''field'', JObj [(''name'', JStr ''Status'')])]])])]])])])])])) ''PVT_1'' = Inr r
     \<and> issues r = (3, 1, 4) \<and> pull_requests r = (0, 2, 0, 2) \<and> draft_count r = 0
     \<and> archived_items r = 1
     \<and> has_key (by_status r) (JStr ''In Progress'')
     \<and> counts_get (by_status r) (JStr ''In Progress'') = 0
     \<and> counts_get (by_status r) (JStr ''Todo'') = 3"
proof -
  let ?opts = "[JObj [(''id'', JStr ''o1''), (''name'', JStr ''Todo'')], JObj [(''id'', JStr ''o2''), (''name'', JStr ''In Progress'')], JObj [(''id'', JStr ''o3''), (''name'', JStr ''Done'')]]"
  let ?sf = "[(''id'', JStr ''F_status''), (''name'', JStr ''Status''), (''dataType'', JStr ''SINGLE_SELECT''), (''options'', JArr [JObj [(''id'', JStr ''o1''), (''name'', JStr ''Todo'')], JObj [(''id'', JStr ''o2''), (''name'', JStr ''In Progress'')], JObj [(''id'', JStr ''o3''), (''name'', JStr ''Done'')]])]"
  let ?items = "[JObj [(''type'', JStr ''ISSUE''), (''isArchived'', JBool False), (''content'', JObj [(''state'', JStr ''OPEN'')]),
                (''fieldValues'', JObj [(''nodes'', JArr [JObj [(''name'', JStr ''Todo''), (''field'', JObj [(''name'', JStr ''Status'')])]])])],
          JObj [(''type'', JStr ''ISSUE''), (''isArchived'', JBool False), (''content'', JObj [(''state'', JStr ''OPEN'')]),
                (''fieldValues'', JObj [(''nodes'', JArr [JObj [(''name'', JStr ''Todo''), (''field'', JObj [(''name'', JStr ''Status'')])]])])],
          JObj [(''type'', JStr ''PULL_REQUEST''), (''isArchived'', JBool False), (''content'', JObj [(''state'', JStr ''MERGED'')]),
                (''fieldValues'', JObj [(''nodes'', JArr [JObj [(''name'', JStr ''Done''), (''field'', JObj [(''name'', JStr ''Status'')])]])])],
          JObj [(''type'', JStr ''ISSUE''), (''isArchived'', JBool False), (''content'', JObj [(''state'', JStr ''CLOSED'')]),
                (''fieldValues'', JObj [(''nodes'', JArr [JObj [(''name'', JStr ''Done''), (''field'', JObj [(''name'', JStr ''Status'')])]])])],
          JObj [(''type'', JStr ''ISSUE''), (''isArchived'', JBool True), (''content'', JObj [(''state'', JStr ''OPEN'')]),
                (''fieldValues'', JObj [(''nodes'', JArr [JObj [(''name'', JStr ''Todo''), (''field'', JObj [(''name'', JStr ''Status'')])]])])],
          JObj [(''type'', JStr ''ISSUE''), (''isArchived'', JBool False), (''content'', JObj [(''state'', JStr ''OPEN'')]),
                (''fieldValues'', JObj [(''nodes'', JArr [JObj [(''name'', JStr ''Todo''), (''field'', JObj [(''name'', JStr ''Status'')])]])])],
          JObj [(''type'', JStr ''PULL_REQUEST''), (''isArchived'', JBool False), (''content'', JObj [(''state'', JStr ''MERGED'')]),
                (''fieldValues'', JObj [(''nodes'', JArr [JObj [(''name'', JStr ''Done''), (''field'', JObj [(''name'', JStr ''Status'')])]])])]]"
  let ?items_obj = "JObj [(''totalCount'', JInt 7), (''nodes'', JArr ?items)]"
  let ?fs = "JObj [(''nodes'', JArr [JObj ?sf])]"
  let ?project = "JObj [(''id'', JStr ''PVT_1''), (''title'', JStr ''Board''), (''number'', JInt 3),
      (''fields'', ?fs), (''items'', ?items_obj)]"
  let ?exec = "\<lambda>req. Inr (JObj [(''data'', JObj [(''node'', ?project)])])"
  let ?r = "\<lparr>project_id = JStr ''PVT_1'', project_title = JStr ''Board'', project_url = JNull,
             project_number = JInt 3, total_items = JInt 7, active_items = 6, archived_items = 1,
             issues = (3, 1, 4), pull_requests = (0, 2, 0, 2), draft_count = 0,
             by_status = [(JStr ''Todo'', 3), (JStr ''In Progress'', 0), (JStr ''Done'', 3)],
             workflows = []\<rparr>"
  have 1: "get_project ?exec ''PVT_1'' 100 = Inr ?project"
    by (simp add: get_project_def and_then_def)
  have 2: "py_get ?project ''items'' (JObj []) = Inr ?items_obj" by simp
  have 3: "py_get ?items_obj ''nodes'' (JArr []) = Inr (JArr ?items)" by simp
  have 4: "get_progress ?exec ''PVT_1'' = Inr ?r" by code_simp
  note inst = get_progress_counts [where execute = ?exec and pid = "''PVT_1''" and project = ?project
      and items_obj = ?items_obj and items = ?items and r = ?r, OF 1 2 3 4]
  have s: "length ?items = 7 \<and> count_class OpenIssue ?items = 3 \<and> count_class ClosedIssue ?items = 1
              \<and> count_class MergedPR ?items = 2 \<and> count_class Archived ?items = 1"
    by code_simp
  have k: "py_get ?project ''fields'' (JObj []) = Inr ?fs
               \<and> py_get ?fs ''nodes'' (JArr []) = Inr (JArr [JObj ?sf])
               \<and> py_iter (JArr [JObj ?sf]) = Inr [JObj ?sf]
               \<and> find_named ''Status'' [JObj ?sf] = Inr (Some (JObj ?sf))
               \<and> map_of ?sf ''options'' = Some (JArr ?opts) \<and> py_iter (JArr ?opts) = Inr ?opts
               \<and> JObj [(''id'', JStr ''o2''), (''name'', JStr ''In Progress'')] \<in> set ?opts
               \<and> py_getitem (JObj [(''id'', JStr ''o2''), (''name'', JStr ''In Progress'')]) ''name''
                   = Inr (JStr ''In Progress'')"
    by (simp add: and_then_def)
  have h0: "status_hits (JStr ''In Progress'') ?items = 0" by code_simp
  have h3: "status_hits (JStr ''Todo'') ?items = 3" by code_simp
  from inst s have a: "issues ?r = (3, 1, 4) \<and> pull_requests ?r = (0, 2, 0, 2)
      \<and> draft_count ?r = 0 \<and> archived_items ?r = 1" by blast
  from inst k have b: "has_key (by_status ?r) (JStr ''In Progress'')
      \<and> counts_get (by_status ?r) (JStr ''In Progress'') = status_hits (JStr ''In Progress'') ?items"
    by blast
  from inst have c: "counts_get (by_status ?r) (JStr ''Todo'') = status_hits (JStr ''Todo'') ?items"
    by blast
  show ?thesis
    apply (rule exI [of _ ?r])
    using 4 a b c h0 h3 by simp
qed

end
